theory Spec2Isabelle
  imports Complex_Main
begin

section \<open>Numbers and basic types (engine/types.ts)\<close>

text \<open>
  The program is TypeScript; every \<open>number\<close> is an IEEE-754 double.  Quantities that
  the program keeps integral (money, lives, costs, bounties, wave indices, tiers, grid
  coordinates) are modelled as \<open>int\<close> or \<open>nat\<close>; continuous quantities (time, positions,
  path progress, speeds, hit points, damage) are modelled as \<open>real\<close>, so rounding of
  sums and products, \<open>NaN\<close> and the infinities are not represented.  The one place
  where rounding decides an integer result, \<open>Math.floor(totalCost * 0.7)\<close>, is modelled
  bit-exactly in the catalog section.
  Division by zero, which yields an infinity or \<open>NaN\<close> in JavaScript, is likewise
  outside the model: the engine divides by the path length, by the length of a path
  segment, by the distance of a projectile from its target and by a tower's attack
  rate; the first two are positive on every path of two or more distinct tiles, the
  last is positive for every tower of the catalog.

  An optional field \<open>f?: number\<close> is an \<open>option\<close>.  The JavaScript idiom \<open>v || d\<close> on
  such a field yields \<open>d\<close> when \<open>v\<close> is \<open>undefined\<close> and also when \<open>v\<close> is \<open>0\<close>; a bare
  test \<open>if (v)\<close> or \<open>v && ...\<close> fails in the same two cases, which the definitions
  below write as a case distinction with the test \<open>v \<noteq> 0\<close>.
\<close>

definition orDefault :: "real option \<Rightarrow> real \<Rightarrow> real" where
  "orDefault v d = (case v of None \<Rightarrow> d | Some r \<Rightarrow> if r = 0 then d else r)"

record Vec2 =
  vx :: real
  vy :: real

record GridCoord =
  gx :: int
  gy :: int

datatype MobType = Normal | Fast | Tank | Flying

record MobStatus =
  slowUntil :: "real option"
  slowMultiplier :: "real option"

record Mob =
  mobId :: string
  mobPos :: Vec2
  hp :: real
  maxHp :: real
  speed :: real
  armor :: real
  mobType :: MobType
  bounty :: int
  pathProgress :: real
  status :: MobStatus
  reachedEnd :: bool

section \<open>Status effects (engine/effects.ts)\<close>

definition canBeSlowed :: bool where
  "canBeSlowed = True"

definition applySlow :: "Mob \<Rightarrow> real \<Rightarrow> real \<Rightarrow> real \<Rightarrow> Mob" where
  "applySlow mob multiplier duration currentTime =
     (if \<not> canBeSlowed then mob
      else
        let newSlowUntil = currentTime + duration;
            existingMultiplier = orDefault (slowMultiplier (status mob)) 1;
            finalMultiplier = min multiplier existingMultiplier
        in mob\<lparr>status := (status mob)
              \<lparr>slowUntil := Some (max (orDefault (slowUntil (status mob)) 0) newSlowUntil),
               slowMultiplier := Some finalMultiplier\<rparr>\<rparr>)"

definition updateMobEffects :: "Mob \<Rightarrow> real \<Rightarrow> Mob" where
  "updateMobEffects mob currentTime =
     (case slowUntil (status mob) of
        None \<Rightarrow> mob
      | Some u \<Rightarrow>
          if u \<noteq> 0 \<and> currentTime \<ge> u
          then mob\<lparr>status := (status mob)\<lparr>slowUntil := None, slowMultiplier := None\<rparr>\<rparr>
          else mob)"

definition getEffectiveSpeed :: "Mob \<Rightarrow> real \<Rightarrow> real" where
  "getEffectiveSpeed mob currentTime =
     (let s = (case (slowUntil (status mob), slowMultiplier (status mob)) of
                 (Some u, Some m) \<Rightarrow>
                   if u \<noteq> 0 \<and> currentTime < u \<and> m \<noteq> 0 then speed mob * m else speed mob
               | _ \<Rightarrow> speed mob)
      in max s (speed mob * (1 / 10)))"

definition calculateDamage :: "real \<Rightarrow> real \<Rightarrow> real" where
  "calculateDamage baseDamage armr = max 1 (baseDamage - armr)"

record DamageResult =
  resMob :: Mob
  actualDamage :: real
  killed :: bool

definition applyDamage :: "Mob \<Rightarrow> real \<Rightarrow> DamageResult" where
  "applyDamage mob baseDamage =
     (let dmg = calculateDamage baseDamage (armor mob);
          newHp = max 0 (hp mob - dmg)
      in \<lparr>resMob = mob\<lparr>hp := newHp\<rparr>, actualDamage = dmg, killed = (newHp = 0)\<rparr>)"

text \<open>A mob that carries a zero multiplier, used by the examples on \<open>applySlow\<close>.\<close>

definition zeroSlowedMob :: Mob where
  "zeroSlowedMob =
     \<lparr>mobId = ''m'', mobPos = \<lparr>vx = 0, vy = 0\<rparr>, hp = 40, maxHp = 40, speed = 3 / 2,
      armor = 0, mobType = Normal, bounty = 5, pathProgress = 1 / 4,
      status = \<lparr>slowUntil = Some 5, slowMultiplier = Some 0\<rparr>, reachedEnd = False\<rparr>"

definition halfSlowedMob :: Mob where
  "halfSlowedMob = zeroSlowedMob\<lparr>status := \<lparr>slowUntil = Some 5, slowMultiplier = Some (1 / 2)\<rparr>\<rparr>"

section \<open>Catalog (engine/definitions.ts)\<close>

record GameConfig =
  mapWidth :: int
  mapHeight :: int
  tileSize :: real
  tickRate :: real
  startingMoney :: int
  startingLives :: int

definition GAME_CONFIG :: GameConfig where
  "GAME_CONFIG = \<lparr>mapWidth = 16, mapHeight = 12, tileSize = 40, tickRate = 60,
                   startingMoney = 100, startingLives = 20\<rparr>"

datatype TowerType = Arrow | Cannon | Frost

record Upgrade =
  upTier :: nat
  upCost :: int
  damageMultiplier :: real
  attackRateMultiplier :: "real option"
  rangeMultiplier :: "real option"

record TowerDefinition =
  tdType :: TowerType
  tdName :: string
  baseCost :: int
  tdRange :: real
  tdDamage :: real
  tdAttackRate :: real
  tdProjectileSpeed :: "real option"
  tdSplashRadius :: "real option"
  tdSlowDuration :: "real option"
  tdSlowAmount :: "real option"
  upgrades :: "Upgrade list"

definition arrowDefinition :: TowerDefinition where
  "arrowDefinition =
     \<lparr>tdType = Arrow, tdName = ''Arrow Tower'', baseCost = 25, tdRange = 35 / 10, tdDamage = 15,
      tdAttackRate = 25 / 10, tdProjectileSpeed = Some 8, tdSplashRadius = None,
      tdSlowDuration = None, tdSlowAmount = None,
      upgrades =
        [\<lparr>upTier = 2, upCost = 30, damageMultiplier = 16 / 10,
          attackRateMultiplier = Some (13 / 10), rangeMultiplier = Some (12 / 10)\<rparr>,
         \<lparr>upTier = 3, upCost = 60, damageMultiplier = 22 / 10,
          attackRateMultiplier = Some (14 / 10), rangeMultiplier = Some (13 / 10)\<rparr>]\<rparr>"

definition cannonDefinition :: TowerDefinition where
  "cannonDefinition =
     \<lparr>tdType = Cannon, tdName = ''Cannon Tower'', baseCost = 50, tdRange = 25 / 10, tdDamage = 45,
      tdAttackRate = 8 / 10, tdProjectileSpeed = Some 6, tdSplashRadius = Some (15 / 10),
      tdSlowDuration = None, tdSlowAmount = None,
      upgrades =
        [\<lparr>upTier = 2, upCost = 75, damageMultiplier = 15 / 10,
          attackRateMultiplier = Some (12 / 10), rangeMultiplier = Some (12 / 10)\<rparr>,
         \<lparr>upTier = 3, upCost = 120, damageMultiplier = 2,
          attackRateMultiplier = Some (13 / 10), rangeMultiplier = Some (13 / 10)\<rparr>]\<rparr>"

definition frostDefinition :: TowerDefinition where
  "frostDefinition =
     \<lparr>tdType = Frost, tdName = ''Frost Tower'', baseCost = 40, tdRange = 3, tdDamage = 20,
      tdAttackRate = 15 / 10, tdProjectileSpeed = Some 10, tdSplashRadius = None,
      tdSlowDuration = Some 3, tdSlowAmount = Some (5 / 10),
      upgrades =
        [\<lparr>upTier = 2, upCost = 50, damageMultiplier = 14 / 10,
          attackRateMultiplier = Some (13 / 10), rangeMultiplier = Some (115 / 100)\<rparr>,
         \<lparr>upTier = 3, upCost = 80, damageMultiplier = 18 / 10,
          attackRateMultiplier = Some (14 / 10), rangeMultiplier = Some (125 / 100)\<rparr>]\<rparr>"

record MobDefinition =
  mdType :: MobType
  mdName :: string
  baseHp :: real
  baseSpeed :: real
  mdArmor :: real
  mdBounty :: int
  hpMultiplier :: real
  speedMultiplier :: "real option"

definition normalDefinition :: MobDefinition where
  "normalDefinition =
     \<lparr>mdType = Normal, mdName = ''Goblin'', baseHp = 40, baseSpeed = 15 / 10, mdArmor = 0,
      mdBounty = 5, hpMultiplier = 12 / 10, speedMultiplier = None\<rparr>"

definition fastDefinition :: MobDefinition where
  "fastDefinition =
     \<lparr>mdType = Fast, mdName = ''Wolf'', baseHp = 25, baseSpeed = 28 / 10, mdArmor = 0,
      mdBounty = 8, hpMultiplier = 115 / 100, speedMultiplier = Some (103 / 100)\<rparr>"

definition tankDefinition :: MobDefinition where
  "tankDefinition =
     \<lparr>mdType = Tank, mdName = ''Orc Warrior'', baseHp = 150, baseSpeed = 8 / 10, mdArmor = 8,
      mdBounty = 20, hpMultiplier = 125 / 100, speedMultiplier = None\<rparr>"

definition flyingDefinition :: MobDefinition where
  "flyingDefinition =
     \<lparr>mdType = Flying, mdName = ''Bat'', baseHp = 35, baseSpeed = 25 / 10, mdArmor = 0,
      mdBounty = 15, hpMultiplier = 118 / 100, speedMultiplier = Some (104 / 100)\<rparr>"

text \<open>
  \<open>TOWER_DEFINITIONS\<close> and \<open>MOB_DEFINITIONS\<close> are object literals indexed by a string,
  \<open>TOWER_DEFINITIONS[towerType]\<close>.  Property lookup on an object literal finds the
  object's own keys and, failing that, the members it inherits from
  \<open>Object.prototype\<close>; these are functions (or, for \<open>__proto__\<close>, the prototype object),
  hence truthy values without any of the definition's fields.  Every other key yields
  \<open>undefined\<close>.
\<close>

datatype 'd lookup = Own 'd | Inherited | Undefined

definition objectPrototypeKeys :: "string list" where
  "objectPrototypeKeys =
     [''constructor'', ''__proto__'', ''hasOwnProperty'', ''isPrototypeOf'',
      ''propertyIsEnumerable'', ''toLocaleString'', ''toString'', ''valueOf'',
      ''__defineGetter__'', ''__defineSetter__'', ''__lookupGetter__'', ''__lookupSetter__'']"

definition objectLookup :: "(string \<times> 'd) list \<Rightarrow> string \<Rightarrow> 'd lookup" where
  "objectLookup entries k =
     (case map_of entries k of
        Some d \<Rightarrow> Own d
      | None \<Rightarrow> if k \<in> set objectPrototypeKeys then Inherited else Undefined)"

definition TOWER_DEFINITIONS :: "string \<Rightarrow> TowerDefinition lookup" where
  "TOWER_DEFINITIONS =
     objectLookup [(''arrow'', arrowDefinition), (''cannon'', cannonDefinition),
                   (''frost'', frostDefinition)]"

definition MOB_DEFINITIONS :: "string \<Rightarrow> MobDefinition lookup" where
  "MOB_DEFINITIONS =
     objectLookup [(''normal'', normalDefinition), (''fast'', fastDefinition),
                   (''tank'', tankDefinition), (''flying'', flyingDefinition)]"

text \<open>The string that a value of the union type \<open>TowerType\<close> or \<open>MobType\<close> is at run time.\<close>

fun towerKey :: "TowerType \<Rightarrow> string" where
  "towerKey Arrow = ''arrow''"
| "towerKey Cannon = ''cannon''"
| "towerKey Frost = ''frost''"

fun mobKey :: "MobType \<Rightarrow> string" where
  "mobKey Normal = ''normal''"
| "mobKey Fast = ''fast''"
| "mobKey Tank = ''tank''"
| "mobKey Flying = ''flying''"

text \<open>
  A call either throws, or returns a value, or (after an inherited lookup) returns a
  value built from \<open>undefined\<close> fields, whose numbers are \<open>undefined\<close> or \<open>NaN\<close>.
\<close>

datatype error = UnknownTowerType string | UnknownMobType string | TypeError

datatype 'a outcome = Throws error | Returns 'a | ReturnsNonNumeric

record TowerStats =
  stDamage :: real
  stRange :: real
  stAttackRate :: real
  stCost :: int
  stDps :: real

record BaseStats =
  bsDamage :: real
  bsRange :: real
  bsAttackRate :: real
  bsCost :: int

text \<open>One iteration of the loop \<open>for (let t = 2; t <= tier; t++)\<close> of \<open>calculateTowerStats\<close>.\<close>

definition applyUpgrade :: "TowerDefinition \<Rightarrow> nat \<Rightarrow> BaseStats \<Rightarrow> BaseStats" where
  "applyUpgrade definition t stats =
     (case find (\<lambda>u. upTier u = t) (upgrades definition) of
        None \<Rightarrow> stats
      | Some upgrade \<Rightarrow>
          \<lparr>bsDamage = bsDamage stats * damageMultiplier upgrade,
           bsRange = bsRange stats * orDefault (rangeMultiplier upgrade) 1,
           bsAttackRate = bsAttackRate stats * orDefault (attackRateMultiplier upgrade) 1,
           bsCost = bsCost stats + upCost upgrade\<rparr>)"

definition calculateTowerStats :: "string \<Rightarrow> nat \<Rightarrow> TowerStats outcome" where
  "calculateTowerStats towerType tier =
     (case TOWER_DEFINITIONS towerType of
        Undefined \<Rightarrow> Throws (UnknownTowerType towerType)
      | Inherited \<Rightarrow> if 2 \<le> tier then Throws TypeError else ReturnsNonNumeric
      | Own definition \<Rightarrow>
          let stats = fold (applyUpgrade definition) [2 ..< Suc tier]
                        \<lparr>bsDamage = tdDamage definition, bsRange = tdRange definition,
                         bsAttackRate = tdAttackRate definition, bsCost = baseCost definition\<rparr>
          in Returns \<lparr>stDamage = bsDamage stats, stRange = bsRange stats,
                      stAttackRate = bsAttackRate stats, stCost = bsCost stats,
                      stDps = bsDamage stats * bsAttackRate stats\<rparr>)"

record MobStats =
  msHp :: real
  msMaxHp :: real
  msSpeed :: real
  msArmor :: real
  msBounty :: int
  msType :: MobType
  msName :: string

definition calculateMobStats :: "string \<Rightarrow> int \<Rightarrow> MobStats outcome" where
  "calculateMobStats mobTypeName waveNumber =
     (case MOB_DEFINITIONS mobTypeName of
        Undefined \<Rightarrow> Throws (UnknownMobType mobTypeName)
      | Inherited \<Rightarrow> ReturnsNonNumeric
      | Own definition \<Rightarrow>
          let waveMultiplier = waveNumber - 1;
              h = of_int \<lfloor>baseHp definition * power_int (hpMultiplier definition) waveMultiplier\<rfloor>;
              s = baseSpeed definition
                    * power_int (orDefault (speedMultiplier definition) 1) waveMultiplier
          in Returns \<lparr>msHp = h, msMaxHp = h, msSpeed = s, msArmor = mdArmor definition,
                      msBounty = mdBounty definition, msType = mdType definition,
                      msName = mdName definition\<rparr>)"

definition calculateUpgradeCost :: "string \<Rightarrow> nat \<Rightarrow> nat \<Rightarrow> error + int" where
  "calculateUpgradeCost towerType fromTier toTier =
     (case TOWER_DEFINITIONS towerType of
        Undefined \<Rightarrow> Inr 0
      | Inherited \<Rightarrow> if fromTier \<ge> toTier then Inr 0 else Inl TypeError
      | Own definition \<Rightarrow>
          if fromTier \<ge> toTier then Inr 0
          else (case find (\<lambda>u. upTier u = toTier) (upgrades definition) of
                  None \<Rightarrow> Inr 0
                | Some upgrade \<Rightarrow> Inr (upCost upgrade)))"

text \<open>
  \<open>Math.floor(c * 0.7)\<close> for an integer \<open>c\<close> below \<open>2^53\<close>.  The literal \<open>0.7\<close> is the
  double \<open>3152519739159347 / 2^52\<close>; the product is rounded to 53 significant bits,
  ties to even, and then floored.  It differs from \<open>\<lfloor>7 c / 10\<rfloor>\<close> at some multiples of
  ten, for instance at 90 and 170.
\<close>

definition mantissa_0_7 :: int where
  "mantissa_0_7 = 3152519739159347"

definition roundTiesToEven :: "int \<Rightarrow> nat \<Rightarrow> int" where
  "roundTiesToEven p k =
     (let q = p div 2 ^ k; r = p mod 2 ^ k
      in if 2 * r < 2 ^ k then q
         else if 2 * r > 2 ^ k then q + 1
         else if even q then q else q + 1)"

text \<open>The number of binary digits of a positive integer.\<close>

function bitLength :: "int \<Rightarrow> nat" where
  "bitLength p = (if p \<le> 0 then 0 else Suc (bitLength (p div 2)))"
  by pat_completeness auto
termination
  by (relation "measure nat") auto

text \<open>The double \<open>c * 0.7\<close>, as an integer multiple of \<open>2^-52\<close>.\<close>

definition scaled_times_0_7 :: "int \<Rightarrow> int" where
  "scaled_times_0_7 c =
     (let p = \<bar>c\<bar> * mantissa_0_7;
          k = bitLength p - 53
      in sgn c * (roundTiesToEven p k * 2 ^ k))"

definition floor_times_0_7 :: "int \<Rightarrow> int" where
  "floor_times_0_7 c = scaled_times_0_7 c div 2 ^ 52"

definition calculateSellValue :: "string \<Rightarrow> nat \<Rightarrow> int outcome" where
  "calculateSellValue towerType tier =
     (case calculateTowerStats towerType tier of
        Throws e \<Rightarrow> Throws e
      | ReturnsNonNumeric \<Rightarrow> ReturnsNonNumeric
      | Returns stats \<Rightarrow> Returns (floor_times_0_7 (stCost stats)))"

section \<open>Grid and path (engine/grid.ts)\<close>

definition gridToWorld :: "GridCoord \<Rightarrow> real \<Rightarrow> Vec2" where
  "gridToWorld coord ts =
     \<lparr>vx = of_int (gx coord) * ts + ts / 2, vy = of_int (gy coord) * ts + ts / 2\<rparr>"

definition distance :: "Vec2 \<Rightarrow> Vec2 \<Rightarrow> real" where
  "distance a b =
     (let dx = vx a - vx b; dy = vy a - vy b in sqrt (dx * dx + dy * dy))"

definition distanceSquared :: "Vec2 \<Rightarrow> Vec2 \<Rightarrow> real" where
  "distanceSquared a b =
     (let dx = vx a - vx b; dy = vy a - vy b in dx * dx + dy * dy)"

text \<open>The loop \<open>for (let i = 1; i < pathCoords.length; i++)\<close> of \<open>calculatePathLength\<close>.\<close>

fun sumSegments :: "GridCoord list \<Rightarrow> real \<Rightarrow> real \<Rightarrow> real" where
  "sumSegments (a # b # rest) ts totalLength =
     sumSegments (b # rest) ts (totalLength + distance (gridToWorld a ts) (gridToWorld b ts))"
| "sumSegments _ ts totalLength = totalLength"

definition calculatePathLength :: "GridCoord list \<Rightarrow> real \<Rightarrow> real" where
  "calculatePathLength coords ts =
     (if length coords < 2 then 0 else sumSegments coords ts 0)"

text \<open>
  The segment search of \<open>getPositionOnPath\<close>; \<open>None\<close> when the loop ends without
  returning.  (Where a segment has length 0 and is selected, JavaScript divides by zero
  and returns \<open>NaN\<close> coordinates; that happens only on a path of total length 0.)
\<close>

fun walkSegments :: "GridCoord list \<Rightarrow> real \<Rightarrow> real \<Rightarrow> real \<Rightarrow> Vec2 option" where
  "walkSegments (a # b # rest) ts targetDistance currentDistance =
     (let segmentStart = gridToWorld a ts;
          segmentEnd = gridToWorld b ts;
          segmentLength = distance segmentStart segmentEnd
      in if currentDistance + segmentLength \<ge> targetDistance
         then let segmentProgress = (targetDistance - currentDistance) / segmentLength
              in Some \<lparr>vx = vx segmentStart + (vx segmentEnd - vx segmentStart) * segmentProgress,
                      vy = vy segmentStart + (vy segmentEnd - vy segmentStart) * segmentProgress\<rparr>
         else walkSegments (b # rest) ts targetDistance (currentDistance + segmentLength))"
| "walkSegments _ ts targetDistance currentDistance = None"

definition getPositionOnPath :: "GridCoord list \<Rightarrow> real \<Rightarrow> real \<Rightarrow> Vec2" where
  "getPositionOnPath coords progress ts =
     (if length coords = 0 then \<lparr>vx = 0, vy = 0\<rparr>
      else if length coords = 1 \<or> progress \<le> 0 then gridToWorld (coords ! 0) ts
      else if progress \<ge> 1 then gridToWorld (coords ! (length coords - 1)) ts
      else
        let totalLength = calculatePathLength coords ts;
            targetDistance = progress * totalLength
        in case walkSegments coords ts targetDistance 0 of
             Some v \<Rightarrow> v
           | None \<Rightarrow> gridToWorld (coords ! (length coords - 1)) ts)"

section \<open>Targeting (engine/targeting.ts)\<close>

record Tower =
  twId :: string
  twGridCoord :: GridCoord
  twPos :: Vec2
  twType :: TowerType
  twTier :: nat
  twRange :: real
  twDamage :: real
  twAttackRate :: real
  twProjectileSpeed :: "real option"
  twLastAttackTime :: real
  twSplashRadius :: "real option"
  twSlowDuration :: "real option"
  twSlowAmount :: "real option"

datatype TargetingStrategy = First | Last | Nearest | Strongest | Weakest

text \<open>
  \<open>mobs.reduce(f)\<close> without an initial value: the first element seeds the accumulator
  and the others are folded in from left to right.  Each selector returns \<open>null\<close> on
  the empty list before reducing.
\<close>

fun reduce :: "('a \<Rightarrow> 'a \<Rightarrow> 'a) \<Rightarrow> 'a list \<Rightarrow> 'a option" where
  "reduce f [] = None"
| "reduce f (m # ms) = Some (foldl f m ms)"

definition getFirstMob :: "Mob list \<Rightarrow> Mob option" where
  "getFirstMob ms =
     reduce (\<lambda>closest mob. if pathProgress mob > pathProgress closest then mob else closest) ms"

definition getLastMob :: "Mob list \<Rightarrow> Mob option" where
  "getLastMob ms =
     reduce (\<lambda>furthest mob. if pathProgress mob < pathProgress furthest then mob else furthest) ms"

definition getNearestMob :: "Vec2 \<Rightarrow> Mob list \<Rightarrow> Mob option" where
  "getNearestMob towerPos ms =
     reduce (\<lambda>nearest mob.
               if distanceSquared towerPos (mobPos mob) < distanceSquared towerPos (mobPos nearest)
               then mob else nearest) ms"

definition getStrongestMob :: "Mob list \<Rightarrow> Mob option" where
  "getStrongestMob ms = reduce (\<lambda>strongest mob. if hp mob > hp strongest then mob else strongest) ms"

definition getWeakestMob :: "Mob list \<Rightarrow> Mob option" where
  "getWeakestMob ms = reduce (\<lambda>weakest mob. if hp mob < hp weakest then mob else weakest) ms"

definition mobsInRangeOf :: "Tower \<Rightarrow> Mob list \<Rightarrow> Mob list" where
  "mobsInRangeOf tower ms =
     filter (\<lambda>mob. distance (twPos tower) (mobPos mob) \<le> twRange tower \<and> \<not> reachedEnd mob) ms"

definition findTarget :: "Tower \<Rightarrow> Mob list \<Rightarrow> TargetingStrategy \<Rightarrow> Mob option" where
  "findTarget tower ms strategy =
     (let mobsInRange = mobsInRangeOf tower ms
      in if length mobsInRange = 0 then None
         else case strategy of
                First \<Rightarrow> getFirstMob mobsInRange
              | Last \<Rightarrow> getLastMob mobsInRange
              | Nearest \<Rightarrow> getNearestMob (twPos tower) mobsInRange
              | Strongest \<Rightarrow> getStrongestMob mobsInRange
              | Weakest \<Rightarrow> getWeakestMob mobsInRange)"

definition canTowerAttack :: "Tower \<Rightarrow> real \<Rightarrow> bool" where
  "canTowerAttack tower currentTime =
     (let timeSinceLastAttack = currentTime - twLastAttackTime tower;
          cooldownTime = 1 / twAttackRate tower
      in timeSinceLastAttack \<ge> cooldownTime)"

definition getMobsInSplashRange :: "Vec2 \<Rightarrow> real \<Rightarrow> Mob list \<Rightarrow> Mob list" where
  "getMobsInSplashRange centerPos radius ms =
     filter (\<lambda>mob. distance centerPos (mobPos mob) \<le> radius \<and> \<not> reachedEnd mob) ms"

section \<open>Game state (engine/types.ts, state/store.ts)\<close>

datatype ProjectileType = ArrowProjectile | Cannonball | FrostProjectile

record Projectile =
  prId :: string
  prPos :: Vec2
  targetPos :: Vec2
  targetMobId :: "string option"
  prSpeed :: real
  prDamage :: real
  prType :: ProjectileType
  prSplashRadius :: "real option"
  prSlowDuration :: "real option"
  prSlowAmount :: "real option"
  hasHit :: bool

datatype TileType = PathTile | Buildable | Blocked

record Tile =
  tileCoord :: GridCoord
  tileType :: TileType
  pathIndex :: "nat option"

datatype GamePhase = Preparing | WaveActive | BetweenWaves | Victory | Defeat

text \<open>
  The towers kept in the state are the store's \<open>PlacedTower\<close> objects, to which the
  engine adds \<open>lastAttackTime\<close> once a tower has fired.
\<close>

record PlacedTower =
  ptId :: string
  ptGridCoord :: GridCoord
  ptType :: TowerType
  ptTier :: nat
  ptLastAttackTime :: "real option"

text \<open>
  The engine rebuilds the state with \<open>{...state, field: value}\<close>, so every field it does
  not name is carried over; its functions are therefore defined on any extension of the
  record (the fields \<open>waves\<close> and \<open>nextWaveTime\<close>, never read, live there, as do the
  store's user-interface fields).
\<close>

record GameState =
  phase :: GamePhase
  currentWaveIndex :: int
  simulationTime :: real
  isPaused :: bool
  gameSpeed :: real
  money :: int
  lives :: int
  mobs :: "Mob list"
  towers :: "PlacedTower list"
  projectiles :: "Projectile list"
  tileMap :: "Tile list list"
  pathCoords :: "GridCoord list"

record Store = GameState +
  hoveredCoord :: "GridCoord option"
  selectedTowerId :: "string option"
  selectedTowerType :: "TowerType option"
  showRange :: bool

text \<open>
  How a call of the store or of the engine can stop without a new state: an exception,
  or a computation that would continue on \<open>undefined\<close>/\<open>NaN\<close> numbers, which the number
  model above does not follow.  For values of the types \<open>TowerType\<close> and \<open>MobType\<close>
  the catalog lookups succeed, so the engine never stops this way and the store only
  when \<open>state.map\<close> lacks the tile asked for (lemmas \<open>advanceTick_total\<close>,
  \<open>buildTower_total\<close> below).
\<close>

datatype stop = Thrown error | NonNumeric

section \<open>Store actions (state/store.ts)\<close>

definition getTowerById :: "'a GameState_scheme \<Rightarrow> string \<Rightarrow> PlacedTower option" where
  "getTowerById state towerId = find (\<lambda>t. ptId t = towerId) (towers state)"

definition canBuildAt :: "'a GameState_scheme \<Rightarrow> GridCoord \<Rightarrow> error + bool" where
  "canBuildAt state coord =
     (if gx coord < 0 \<or> gx coord \<ge> mapWidth GAME_CONFIG \<or>
         gy coord < 0 \<or> gy coord \<ge> mapHeight GAME_CONFIG
      then Inr False
      else if length (tileMap state) \<le> nat (gy coord) then Inl TypeError
      else
        let row = tileMap state ! nat (gy coord)
        in if length row \<le> nat (gx coord) then Inl TypeError
           else
             let tile = row ! nat (gx coord)
             in if tileType tile \<noteq> Buildable then Inr False
                else Inr (\<not> list_ex (\<lambda>tower. gx (ptGridCoord tower) = gx coord \<and>
                                               gy (ptGridCoord tower) = gy coord)
                                     (towers state)))"

text \<open>The loop of the store's \<open>calculateSellValue\<close>, over the tiers \<open>2 .. tower.tier\<close>.\<close>

fun addUpgradeCosts :: "string \<Rightarrow> nat list \<Rightarrow> int \<Rightarrow> error + int" where
  "addUpgradeCosts k [] totalCost = Inr totalCost"
| "addUpgradeCosts k (t # ts) totalCost =
     (case calculateUpgradeCost k (t - 1) t of
        Inl e \<Rightarrow> Inl e
      | Inr c \<Rightarrow> addUpgradeCosts k ts (totalCost + c))"

definition storeCalculateSellValue :: "PlacedTower \<Rightarrow> int outcome" where
  "storeCalculateSellValue tower =
     (case TOWER_DEFINITIONS (towerKey (ptType tower)) of
        Undefined \<Rightarrow> Throws TypeError
      | Inherited \<Rightarrow> if 2 \<le> ptTier tower then Throws TypeError else ReturnsNonNumeric
      | Own definition \<Rightarrow>
          (case addUpgradeCosts (towerKey (ptType tower)) [2 ..< Suc (ptTier tower)]
                  (baseCost definition) of
             Inl e \<Rightarrow> Throws e
           | Inr totalCost \<Rightarrow> Returns (floor_times_0_7 totalCost)))"

text \<open>
  \<open>buildTower\<close>; the identifier built from \<open>Date.now()\<close> and \<open>Math.random()\<close> is an
  input.
\<close>

definition buildTower :: "Store \<Rightarrow> string \<Rightarrow> GridCoord \<Rightarrow> TowerType \<Rightarrow> stop + Store" where
  "buildTower state freshId coord towerType =
     (case calculateTowerStats (towerKey towerType) 1 of
        Throws e \<Rightarrow> Inl (Thrown e)
      | ReturnsNonNumeric \<Rightarrow> Inl NonNumeric
      | Returns stats \<Rightarrow>
          if money state < stCost stats then Inr state
          else case canBuildAt state coord of
                 Inl e \<Rightarrow> Inl (Thrown e)
               | Inr ok \<Rightarrow>
                   if \<not> ok then Inr state
                   else
                     let newTower = \<lparr>ptId = freshId, ptGridCoord = coord, ptType = towerType,
                                      ptTier = 1, ptLastAttackTime = None\<rparr>
                     in Inr (state\<lparr>towers := towers state @ [newTower],
                                   money := money state - stCost stats,
                                   selectedTowerId := Some (ptId newTower)\<rparr>))"

definition upgradeTower :: "Store \<Rightarrow> string \<Rightarrow> stop + Store" where
  "upgradeTower state towerId =
     (case getTowerById state towerId of
        None \<Rightarrow> Inr state
      | Some tower \<Rightarrow>
          if ptTier tower \<ge> 3 then Inr state
          else
            let nextTier = ptTier tower + 1
            in if nextTier > 3 then Inr state
               else case calculateUpgradeCost (towerKey (ptType tower)) (ptTier tower) nextTier of
                      Inl e \<Rightarrow> Inl (Thrown e)
                    | Inr upgradeCost \<Rightarrow>
                        if money state < upgradeCost then Inr state
                        else Inr (state\<lparr>towers := map (\<lambda>t. if ptId t = towerId
                                                             then t\<lparr>ptTier := nextTier\<rparr> else t)
                                                       (towers state),
                                        money := money state - upgradeCost\<rparr>))"

definition sellTower :: "Store \<Rightarrow> string \<Rightarrow> stop + Store" where
  "sellTower state towerId =
     (case getTowerById state towerId of
        None \<Rightarrow> Inr state
      | Some tower \<Rightarrow>
          (case storeCalculateSellValue tower of
             Throws e \<Rightarrow> Inl (Thrown e)
           | ReturnsNonNumeric \<Rightarrow> Inl NonNumeric
           | Returns sellValue \<Rightarrow>
               Inr (state\<lparr>towers := filter (\<lambda>t. ptId t \<noteq> towerId) (towers state),
                           money := money state + sellValue,
                           selectedTowerId := None\<rparr>)))"

text \<open>
  The catalog entry of a tower type, what \<open>upgradeTower\<close> charges for the step to tier
  \<open>t\<close>, and the investment in a tower of a given tier: its base cost plus the charges
  for the tiers \<open>2 .. tier\<close>.
\<close>

fun towerDefinitionOf :: "TowerType \<Rightarrow> TowerDefinition" where
  "towerDefinitionOf Arrow = arrowDefinition"
| "towerDefinitionOf Cannon = cannonDefinition"
| "towerDefinitionOf Frost = frostDefinition"

definition upgradeStepCost :: "TowerType \<Rightarrow> nat \<Rightarrow> int" where
  "upgradeStepCost ty t =
     (case find (\<lambda>u. upTier u = t) (upgrades (towerDefinitionOf ty)) of
        None \<Rightarrow> 0 | Some u \<Rightarrow> upCost u)"

definition totalInvestment :: "TowerType \<Rightarrow> nat \<Rightarrow> int" where
  "totalInvestment ty tier =
     baseCost (towerDefinitionOf ty) + sum_list (map (upgradeStepCost ty) [2 ..< Suc tier])"

section \<open>Simulation engine (engine/sim.ts)\<close>

text \<open>
  Identifiers of new projectiles and mobs come from \<open>Date.now()\<close> and
  \<open>Math.random()\<close>; the engine's functions take them from an environment: the
  identifier for the projectile of the \<open>i\<close>-th tower and for the \<open>i\<close>-th mob of a wave.
  Nothing is assumed about them, not even that they differ.
\<close>

record Env =
  projectileId :: "nat \<Rightarrow> string"
  spawnedMobId :: "nat \<Rightarrow> string"

subsection \<open>Mobs\<close>

text \<open>The mob after the spawn-timer branch, and after the movement branch, of \<open>updateMobs\<close>.\<close>

definition advanceSpawnTimer :: "'a GameState_scheme \<Rightarrow> real \<Rightarrow> Mob \<Rightarrow> Mob" where
  "advanceSpawnTimer state deltaTime mob =
     (let newProgress = pathProgress mob + deltaTime
      in mob\<lparr>pathProgress := newProgress,
             mobPos := (if newProgress \<ge> 0
                        then getPositionOnPath (pathCoords state) 0 (tileSize GAME_CONFIG)
                        else mobPos mob)\<rparr>)"

definition moveMob :: "'a GameState_scheme \<Rightarrow> real \<Rightarrow> Mob \<Rightarrow> Mob" where
  "moveMob state deltaTime mob =
     (let mobWithUpdatedEffects = updateMobEffects mob (simulationTime state);
          effectiveSpeed = getEffectiveSpeed mobWithUpdatedEffects (simulationTime state);
          pathLength = calculatePathLength (pathCoords state) (tileSize GAME_CONFIG);
          progressDelta = (effectiveSpeed * tileSize GAME_CONFIG * deltaTime) / pathLength;
          newProgress = min 1 (pathProgress mobWithUpdatedEffects + progressDelta)
      in mobWithUpdatedEffects
           \<lparr>pathProgress := newProgress,
            mobPos := getPositionOnPath (pathCoords state) newProgress (tileSize GAME_CONFIG)\<rparr>)"

fun updateMobsLoop ::
  "'a GameState_scheme \<Rightarrow> real \<Rightarrow> Mob list \<Rightarrow> Mob list \<times> int \<Rightarrow> Mob list \<times> int" where
  "updateMobsLoop state deltaTime [] acc = acc"
| "updateMobsLoop state deltaTime (mob # rest) (updatedMobs, livesLost) =
     (if pathProgress mob < 0
      then updateMobsLoop state deltaTime rest
             (updatedMobs @ [advanceSpawnTimer state deltaTime mob], livesLost)
      else
        let moved = moveMob state deltaTime mob;
            arrives = (pathProgress moved \<ge> 1 \<and> \<not> reachedEnd moved);
            updatedMob = (if arrives then moved\<lparr>reachedEnd := True\<rparr> else moved);
            livesLost' = (if arrives then livesLost + 1 else livesLost)
        in updateMobsLoop state deltaTime rest
             (if \<not> reachedEnd updatedMob \<and> hp updatedMob > 0
              then updatedMobs @ [updatedMob] else updatedMobs,
              livesLost'))"

definition updateMobs :: "'a GameState_scheme \<Rightarrow> real \<Rightarrow> 'a GameState_scheme" where
  "updateMobs state deltaTime =
     (case updateMobsLoop state deltaTime (mobs state) ([], 0) of
        (updatedMobs, livesLost) \<Rightarrow>
          let newLives = max 0 (lives state - livesLost)
          in state\<lparr>mobs := updatedMobs, lives := newLives\<rparr>)"

subsection \<open>Towers\<close>

definition projectileTypeOf :: "TowerType \<Rightarrow> ProjectileType" where
  "projectileTypeOf ty =
     (if ty = Arrow then ArrowProjectile else if ty = Cannon then Cannonball else FrostProjectile)"

text \<open>The \<open>Tower\<close> object that \<open>updateTowers\<close> derives from a placed tower.\<close>

definition deriveTower :: "PlacedTower \<Rightarrow> stop + Tower" where
  "deriveTower placedTower =
     (case calculateTowerStats (towerKey (ptType placedTower)) (ptTier placedTower) of
        Throws e \<Rightarrow> Inl (Thrown e)
      | ReturnsNonNumeric \<Rightarrow> Inl NonNumeric
      | Returns stats \<Rightarrow>
          (case TOWER_DEFINITIONS (towerKey (ptType placedTower)) of
             Undefined \<Rightarrow> Inl (Thrown TypeError)
           | Inherited \<Rightarrow> Inl NonNumeric
           | Own definition \<Rightarrow>
               Inr \<lparr>twId = ptId placedTower,
                    twGridCoord = ptGridCoord placedTower,
                    twPos = gridToWorld (ptGridCoord placedTower) (tileSize GAME_CONFIG),
                    twType = ptType placedTower,
                    twTier = ptTier placedTower,
                    twRange = stRange stats * tileSize GAME_CONFIG,
                    twDamage = stDamage stats,
                    twAttackRate = stAttackRate stats,
                    twProjectileSpeed = tdProjectileSpeed definition,
                    twLastAttackTime = orDefault (ptLastAttackTime placedTower) 0,
                    twSplashRadius = tdSplashRadius definition,
                    twSlowDuration = tdSlowDuration definition,
                    twSlowAmount = tdSlowAmount definition\<rparr>))"

definition fire :: "string \<Rightarrow> Tower \<Rightarrow> Mob \<Rightarrow> Projectile" where
  "fire newId tower target =
     \<lparr>prId = newId, prPos = twPos tower, targetPos = mobPos target,
      targetMobId = Some (mobId target),
      prSpeed = orDefault (twProjectileSpeed tower) 0,
      prDamage = twDamage tower,
      prType = projectileTypeOf (twType tower),
      prSplashRadius = twSplashRadius tower,
      prSlowDuration = twSlowDuration tower,
      prSlowAmount = twSlowAmount tower,
      hasHit = False\<rparr>"

fun updateTowersLoop ::
  "Env \<Rightarrow> 'a GameState_scheme \<Rightarrow> nat \<Rightarrow> PlacedTower list \<Rightarrow>
   PlacedTower list \<times> Projectile list \<Rightarrow> stop + PlacedTower list \<times> Projectile list" where
  "updateTowersLoop env state i [] acc = Inr acc"
| "updateTowersLoop env state i (placedTower # rest) (updatedTowers, newProjectiles) =
     (case deriveTower placedTower of
        Inl e \<Rightarrow> Inl e
      | Inr tower \<Rightarrow>
          if canTowerAttack tower (simulationTime state)
          then (case findTarget tower (mobs state) First of
                  Some target \<Rightarrow>
                    updateTowersLoop env state (Suc i) rest
                      (updatedTowers @
                         [placedTower\<lparr>ptLastAttackTime := Some (simulationTime state)\<rparr>],
                       newProjectiles @ [fire (projectileId env i) tower target])
                | None \<Rightarrow>
                    updateTowersLoop env state (Suc i) rest
                      (updatedTowers @ [placedTower], newProjectiles))
          else updateTowersLoop env state (Suc i) rest
                 (updatedTowers @ [placedTower], newProjectiles))"

definition updateTowers :: "Env \<Rightarrow> 'a GameState_scheme \<Rightarrow> stop + 'a GameState_scheme" where
  "updateTowers env state =
     (case updateTowersLoop env state 0 (towers state) ([], projectiles state) of
        Inl e \<Rightarrow> Inl e
      | Inr (updatedTowers, newProjectiles) \<Rightarrow>
          Inr (state\<lparr>towers := updatedTowers, projectiles := newProjectiles\<rparr>))"

subsection \<open>Projectiles\<close>

fun findIndex :: "('a \<Rightarrow> bool) \<Rightarrow> 'a list \<Rightarrow> nat option" where
  "findIndex P [] = None"
| "findIndex P (x # xs) =
     (if P x then Some 0 else map_option Suc (findIndex P xs))"

text \<open>\<open>xs.splice(i, 1)\<close>.\<close>

definition removeAt :: "nat \<Rightarrow> 'a list \<Rightarrow> 'a list" where
  "removeAt i xs = take i xs @ drop (Suc i) xs"

text \<open>
  What both branches of \<open>handleProjectileHit\<close> do with the result of \<open>applyDamage\<close>
  for the mob identified by \<open>ident\<close>.
\<close>

definition settleHit :: "string \<Rightarrow> DamageResult \<Rightarrow> Mob list \<times> int \<Rightarrow> Mob list \<times> int" where
  "settleHit ident result acc =
     (case acc of (updatedMobs, bountyGained) \<Rightarrow>
        (case findIndex (\<lambda>m. mobId m = ident) updatedMobs of
           None \<Rightarrow> (updatedMobs, bountyGained)
         | Some mobIndex \<Rightarrow>
             if killed result
             then (removeAt mobIndex updatedMobs, bountyGained + bounty (updatedMobs ! mobIndex))
             else (updatedMobs[mobIndex := resMob result], bountyGained)))"

definition handleProjectileHit :: "Projectile \<Rightarrow> Mob list \<Rightarrow> real \<Rightarrow> Mob list \<times> int" where
  "handleProjectileHit projectile ms currentTime =
     (case (case prSplashRadius projectile of
              None \<Rightarrow> None
            | Some r \<Rightarrow> if r \<noteq> 0 \<and> r > 0 then Some r else None) of
        Some splashRadius \<Rightarrow>
          let mobsInRange = getMobsInSplashRange (targetPos projectile)
                              (splashRadius * tileSize GAME_CONFIG) ms
          in fold (\<lambda>mob. settleHit (mobId mob) (applyDamage mob (prDamage projectile)))
                  mobsInRange (ms, 0)
      | None \<Rightarrow>
          (case find (\<lambda>mob. Some (mobId mob) = targetMobId projectile) ms of
             None \<Rightarrow> (ms, 0)
           | Some targetMob \<Rightarrow>
               let updatedMob =
                     (case (prSlowDuration projectile, prSlowAmount projectile) of
                        (Some slowDuration, Some slowAmount) \<Rightarrow>
                          if slowDuration \<noteq> 0 \<and> slowAmount \<noteq> 0
                          then applySlow targetMob slowAmount slowDuration currentTime
                          else targetMob
                      | _ \<Rightarrow> targetMob)
               in settleHit (mobId targetMob) (applyDamage updatedMob (prDamage projectile))
                    (ms, 0)))"

text \<open>The accumulators of \<open>updateProjectiles\<close>: active projectiles, mobs, money gained.\<close>

fun updateProjectilesLoop ::
  "'a GameState_scheme \<Rightarrow> real \<Rightarrow> Projectile list \<Rightarrow>
   Projectile list \<times> Mob list \<times> int \<Rightarrow> Projectile list \<times> Mob list \<times> int" where
  "updateProjectilesLoop state deltaTime [] acc = acc"
| "updateProjectilesLoop state deltaTime (projectile # rest) (activeProjectiles, updatedMobs, moneyGained) =
     (if hasHit projectile
      then updateProjectilesLoop state deltaTime rest (activeProjectiles, updatedMobs, moneyGained)
      else if prSpeed projectile \<le> 0
      then (case handleProjectileHit projectile updatedMobs (simulationTime state) of
              (ms, bountyGained) \<Rightarrow>
                updateProjectilesLoop state deltaTime rest
                  (activeProjectiles, ms, moneyGained + bountyGained))
      else
        let distanceToTarget = distance (prPos projectile) (targetPos projectile);
            moveDistance = prSpeed projectile * tileSize GAME_CONFIG * deltaTime
        in if distanceToTarget \<le> moveDistance
           then (case handleProjectileHit projectile updatedMobs (simulationTime state) of
                   (ms, bountyGained) \<Rightarrow>
                     updateProjectilesLoop state deltaTime rest
                       (activeProjectiles, ms, moneyGained + bountyGained))
           else
             let dirX = (vx (targetPos projectile) - vx (prPos projectile)) / distanceToTarget;
                 dirY = (vy (targetPos projectile) - vy (prPos projectile)) / distanceToTarget;
                 updatedProjectile =
                   projectile\<lparr>prPos := \<lparr>vx = vx (prPos projectile) + dirX * moveDistance,
                                         vy = vy (prPos projectile) + dirY * moveDistance\<rparr>\<rparr>
             in updateProjectilesLoop state deltaTime rest
                  (activeProjectiles @ [updatedProjectile], updatedMobs, moneyGained))"

definition updateProjectiles :: "'a GameState_scheme \<Rightarrow> real \<Rightarrow> 'a GameState_scheme" where
  "updateProjectiles state deltaTime =
     (case updateProjectilesLoop state deltaTime (projectiles state) ([], mobs state, 0) of
        (activeProjectiles, updatedMobs, moneyGained) \<Rightarrow>
          state\<lparr>projectiles := activeProjectiles, mobs := updatedMobs,
                money := money state + moneyGained\<rparr>)"

subsection \<open>Waves and phases\<close>

text \<open>The \<open>switch (waveNumber)\<close> of \<open>spawnWave\<close>; no case matches outside 1..10.\<close>

definition waveComposition :: "int \<Rightarrow> (string \<times> nat) list" where
  "waveComposition waveNumber =
     (if waveNumber = 1 then [(''normal'', 5)]
      else if waveNumber = 2 then [(''normal'', 8)]
      else if waveNumber = 3 then [(''normal'', 6), (''fast'', 4)]
      else if waveNumber = 4 then [(''fast'', 8), (''normal'', 4)]
      else if waveNumber = 5 then [(''normal'', 8), (''tank'', 3)]
      else if waveNumber = 6 then [(''normal'', 6), (''fast'', 5), (''flying'', 4)]
      else if waveNumber = 7 then [(''fast'', 10), (''tank'', 4), (''flying'', 6)]
      else if waveNumber = 8 then [(''tank'', 8), (''normal'', 10), (''flying'', 3)]
      else if waveNumber = 9 then [(''fast'', 15), (''flying'', 10), (''tank'', 5)]
      else if waveNumber = 10
      then [(''tank'', 10), (''fast'', 15), (''flying'', 12), (''normal'', 20)]
      else [])"

text \<open>The inner loop \<open>for (let i = 0; i < count; i++)\<close>: new mobs and \<open>spawnDelay\<close>.\<close>

fun spawnGroup ::
  "Env \<Rightarrow> 'a GameState_scheme \<Rightarrow> int \<Rightarrow> real \<Rightarrow> string \<Rightarrow> nat \<Rightarrow>
   Mob list \<times> real \<Rightarrow> stop + Mob list \<times> real" where
  "spawnGroup env state waveNumber baseSpacing mobTypeName 0 acc = Inr acc"
| "spawnGroup env state waveNumber baseSpacing mobTypeName (Suc n) (newMobs, spawnDelay) =
     (case calculateMobStats mobTypeName waveNumber of
        Throws e \<Rightarrow> Inl (Thrown e)
      | ReturnsNonNumeric \<Rightarrow> Inl NonNumeric
      | Returns mobStats \<Rightarrow>
          let mob = \<lparr>mobId = spawnedMobId env (length newMobs),
                     mobPos = getPositionOnPath (pathCoords state) 0 (tileSize GAME_CONFIG),
                     hp = msHp mobStats, maxHp = msMaxHp mobStats, speed = msSpeed mobStats,
                     armor = msArmor mobStats, mobType = msType mobStats,
                     bounty = msBounty mobStats,
                     pathProgress = - spawnDelay / 10,
                     status = \<lparr>slowUntil = None, slowMultiplier = None\<rparr>,
                     reachedEnd = False\<rparr>
          in spawnGroup env state waveNumber baseSpacing mobTypeName n
               (newMobs @ [mob], spawnDelay + baseSpacing))"

fun spawnGroups ::
  "Env \<Rightarrow> 'a GameState_scheme \<Rightarrow> int \<Rightarrow> real \<Rightarrow> (string \<times> nat) list \<Rightarrow>
   Mob list \<times> real \<Rightarrow> stop + Mob list \<times> real" where
  "spawnGroups env state waveNumber baseSpacing [] acc = Inr acc"
| "spawnGroups env state waveNumber baseSpacing ((mobTypeName, n) # rest) acc =
     (case spawnGroup env state waveNumber baseSpacing mobTypeName n acc of
        Inl e \<Rightarrow> Inl e
      | Inr (newMobs, spawnDelay) \<Rightarrow>
          spawnGroups env state waveNumber baseSpacing rest (newMobs, spawnDelay + 15 / 10))"

definition spawnWave :: "Env \<Rightarrow> 'a GameState_scheme \<Rightarrow> stop + 'a GameState_scheme" where
  "spawnWave env state =
     (let waveNumber = currentWaveIndex state + 1;
          mobTypes = waveComposition waveNumber;
          baseSpacing = max (3 / 10) (12 / 10 - of_int waveNumber * (1 / 10))
      in case spawnGroups env state waveNumber baseSpacing mobTypes ([], 0) of
           Inl e \<Rightarrow> Inl e
         | Inr (newMobs, spawnDelay) \<Rightarrow>
             Inr (state\<lparr>mobs := mobs state @ newMobs,
                         currentWaveIndex := waveNumber,
                         phase := WaveActive\<rparr>))"

definition updateWaveSpawning :: "Env \<Rightarrow> 'a GameState_scheme \<Rightarrow> stop + 'a GameState_scheme" where
  "updateWaveSpawning env state =
     (let waveInterval = 15;
          shouldSpawnWave = (\<lfloor>simulationTime state / waveInterval\<rfloor> > currentWaveIndex state)
      in if shouldSpawnWave \<and> currentWaveIndex state < 10 then spawnWave env state
         else Inr state)"

definition updateGamePhase :: "'a GameState_scheme \<Rightarrow> 'a GameState_scheme" where
  "updateGamePhase state =
     (if lives state \<le> 0 \<and> phase state \<noteq> Defeat then state\<lparr>phase := Defeat\<rparr>
      else if currentWaveIndex state \<ge> 10 \<and> length (mobs state) = 0 \<and> phase state \<noteq> Victory
      then state\<lparr>phase := Victory\<rparr>
      else state)"

subsection \<open>The tick\<close>

definition advanceTick :: "Env \<Rightarrow> 'a GameState_scheme \<Rightarrow> real \<Rightarrow> stop + 'a GameState_scheme" where
  "advanceTick env state deltaTime =
     (if isPaused state then Inr state
      else if phase state = Defeat \<or> phase state = Victory then Inr state
      else
        let s1 = state\<lparr>simulationTime := simulationTime state + deltaTime * gameSpeed state\<rparr>;
            s2 = updateMobs s1 (deltaTime * gameSpeed state)
        in case updateTowers env s2 of
             Inl e \<Rightarrow> Inl e
           | Inr s3 \<Rightarrow>
               let s4 = updateProjectiles s3 (deltaTime * gameSpeed state)
               in case updateWaveSpawning env s4 of
                    Inl e \<Rightarrow> Inl e
                  | Inr s5 \<Rightarrow> Inr (updateGamePhase s5))"

text \<open>A run of ticks, as the game loop issues them, each with its own step and identifiers.\<close>

fun advanceTicks ::
  "'a GameState_scheme \<Rightarrow> (Env \<times> real) list \<Rightarrow> stop + 'a GameState_scheme" where
  "advanceTicks state [] = Inr state"
| "advanceTicks state ((env, deltaTime) # rest) =
     (case advanceTick env state deltaTime of
        Inl e \<Rightarrow> Inl e
      | Inr state' \<Rightarrow> advanceTicks state' rest)"

section \<open>Notions used to state the properties of a tick\<close>

text \<open>
  The state and the scaled step that the stages of a tick work on, the test by which
  \<open>updateMobs\<close> counts a mob as reaching the end in this tick (it has spawned, it is not
  yet flagged, and its progress after the move is at least 1), and the mobs that
  \<open>spawnWave\<close> appends.
\<close>

definition startTick :: "'a GameState_scheme \<Rightarrow> real \<Rightarrow> 'a GameState_scheme" where
  "startTick state deltaTime =
     state\<lparr>simulationTime := simulationTime state + deltaTime * gameSpeed state\<rparr>"

definition scaledDelta :: "'a GameState_scheme \<Rightarrow> real \<Rightarrow> real" where
  "scaledDelta state deltaTime = deltaTime * gameSpeed state"

definition reachesEnd :: "'a GameState_scheme \<Rightarrow> real \<Rightarrow> Mob \<Rightarrow> bool" where
  "reachesEnd state deltaTime mob =
     (0 \<le> pathProgress mob \<and> \<not> reachedEnd mob \<and> 1 \<le> pathProgress (moveMob state deltaTime mob))"

definition shortCircuited :: "'a GameState_scheme \<Rightarrow> bool" where
  "shortCircuited state = (isPaused state \<or> phase state = Defeat \<or> phase state = Victory)"

definition waveMobs :: "Env \<Rightarrow> 'a GameState_scheme \<Rightarrow> Mob list" where
  "waveMobs env state =
     (let waveNumber = currentWaveIndex state + 1
      in case spawnGroups env state waveNumber
                (max (3 / 10) (12 / 10 - of_int waveNumber * (1 / 10)))
                (waveComposition waveNumber) ([], 0) of
           Inl e \<Rightarrow> []
         | Inr (newMobs, spawnDelay) \<Rightarrow> newMobs)"

definition waveDue :: "'a GameState_scheme \<Rightarrow> real \<Rightarrow> bool" where
  "waveDue state deltaTime =
     (\<lfloor>(simulationTime state + deltaTime * gameSpeed state) / 15\<rfloor> > currentWaveIndex state
      \<and> currentWaveIndex state < 10)"

section \<open>Example values\<close>

fun mobDefinitionOf :: "MobType \<Rightarrow> MobDefinition" where
  "mobDefinitionOf Normal = normalDefinition"
| "mobDefinitionOf Fast = fastDefinition"
| "mobDefinitionOf Tank = tankDefinition"
| "mobDefinitionOf Flying = flyingDefinition"

definition exampleMap :: "Tile list list" where
  "exampleMap =
     map (\<lambda>r. map (\<lambda>c. \<lparr>tileCoord = \<lparr>gx = int c, gy = int r\<rparr>,
                          tileType = (if r = 6 then PathTile else Buildable),
                          pathIndex = (if r = 6 then Some c else None)\<rparr>) [0 ..< 16])
         [0 ..< 12]"

definition examplePath :: "GridCoord list" where
  "examplePath = map (\<lambda>c. \<lparr>gx = int c, gy = 6\<rparr>) [0 ..< 16]"

definition exampleEnv :: Env where
  "exampleEnv = \<lparr>projectileId = (\<lambda>i. ''projectile''), spawnedMobId = (\<lambda>i. ''mob'')\<rparr>"

definition frostTower2 :: PlacedTower where
  "frostTower2 = \<lparr>ptId = ''t1'', ptGridCoord = \<lparr>gx = 3, gy = 4\<rparr>, ptType = Frost, ptTier = 2,
                  ptLastAttackTime = None\<rparr>"

definition exampleStore :: Store where
  "exampleStore =
     \<lparr>phase = WaveActive, currentWaveIndex = 0, simulationTime = 20, isPaused = False,
      gameSpeed = 1, money = 100, lives = 20, mobs = [], towers = [frostTower2],
      projectiles = [], tileMap = exampleMap, pathCoords = examplePath,
      hoveredCoord = None, selectedTowerId = None, selectedTowerType = None,
      showRange = True\<rparr>"

definition exampleTower :: Tower where
  "exampleTower =
     \<lparr>twId = ''t1'', twGridCoord = \<lparr>gx = 0, gy = 0\<rparr>, twPos = \<lparr>vx = 0, vy = 0\<rparr>,
      twType = Arrow, twTier = 1, twRange = 100, twDamage = 15, twAttackRate = 25 / 10,
      twProjectileSpeed = Some 8, twLastAttackTime = 0, twSplashRadius = None,
      twSlowDuration = None, twSlowAmount = None\<rparr>"

definition mobAt :: "string \<Rightarrow> real \<Rightarrow> real \<Rightarrow> real \<Rightarrow> bool \<Rightarrow> Mob" where
  "mobAt ident px py progress ended =
     \<lparr>mobId = ident, mobPos = \<lparr>vx = px, vy = py\<rparr>, hp = 40, maxHp = 40, speed = 3 / 2,
      armor = 0, mobType = Normal, bounty = 5, pathProgress = progress,
      status = \<lparr>slowUntil = None, slowMultiplier = None\<rparr>, reachedEnd = ended\<rparr>"

definition exampleMobs :: "Mob list" where
  "exampleMobs =
     [mobAt ''a'' 30 0 (2 / 10) False, mobAt ''b'' 0 40 (6 / 10) False,
      mobAt ''c'' 0 200 (9 / 10) False, mobAt ''d'' 0 0 (6 / 10) False,
      mobAt ''e'' 0 0 (95 / 100) True]"

definition shortPath :: "GridCoord list" where
  "shortPath = [\<lparr>gx = 0, gy = 6\<rparr>, \<lparr>gx = 1, gy = 6\<rparr>]"

definition arrivalState :: GameState where
  "arrivalState =
     \<lparr>phase = WaveActive, currentWaveIndex = 0, simulationTime = 1, isPaused = False,
      gameSpeed = 1, money = 100, lives = 20,
      mobs = [mobAt ''a'' 58 260 (99 / 100) False, mobAt ''b'' 24 260 (1 / 10) False,
              mobAt ''c'' 20 260 (- 1 / 2) False],
      towers = [], projectiles = [], tileMap = exampleMap, pathCoords = shortPath\<rparr>"

definition pausedStore :: Store where
  "pausedStore = exampleStore\<lparr>isPaused := True\<rparr>"

definition defeatedStore :: Store where
  "defeatedStore = exampleStore\<lparr>phase := Defeat, lives := 0\<rparr>"

section \<open>Properties of the status effects\<close>

text \<open>
  On a mob that carries a slow with a non-zero multiplier, and on a mob that carries
  none, \<open>applySlow\<close> changes only the status: the expiry becomes the later of the existing
  one (0 when there is none) and \<open>now + d\<close>, and is never shortened; the multiplier
  becomes the smaller of the existing one (1 when there is none) and \<open>m\<close>.  For non-zero
  multipliers the order in which two slows are applied does not matter.
\<close>

lemma applySlow_slowed:
  assumes "slowUntil (status mob) = Some u" and "slowMultiplier (status mob) = Some e" and "e \<noteq> 0"
  shows "applySlow mob m d now =
           mob\<lparr>status := \<lparr>slowUntil = Some (max u (now + d)), slowMultiplier = Some (min e m)\<rparr>\<rparr>"
  using assms
  by (auto simp: applySlow_def canBeSlowed_def orDefault_def Let_def min_def max_def)

lemma applySlow_unslowed:
  assumes "slowUntil (status mob) = None" and "slowMultiplier (status mob) = None"
  shows "applySlow mob m d now =
           mob\<lparr>status := \<lparr>slowUntil = Some (max 0 (now + d)), slowMultiplier = Some (min 1 m)\<rparr>\<rparr>"
  using assms
  by (auto simp: applySlow_def canBeSlowed_def orDefault_def Let_def min_def max_def)

lemma applySlow_never_shortens:
  assumes "slowUntil (status mob) = Some u"
  shows "\<exists>u'. slowUntil (status (applySlow mob m d now)) = Some u' \<and> u \<le> u' \<and> now + d \<le> u'"
  using assms
  by (auto simp: applySlow_def canBeSlowed_def orDefault_def Let_def)

lemma applySlow_order_independent:
  assumes "m1 \<noteq> 0" and "m2 \<noteq> 0" and "slowMultiplier (status mob) \<noteq> Some 0"
  shows "applySlow (applySlow mob m1 d1 t1) m2 d2 t2 = applySlow (applySlow mob m2 d2 t2) m1 d1 t1"
  using assms
  by (cases "slowUntil (status mob)"; cases "slowMultiplier (status mob)")
     (auto simp: applySlow_def canBeSlowed_def orDefault_def Let_def min_def max_def)

lemma applySlow_examples:
  "slowUntil (status (applySlow halfSlowedMob (7 / 10) 1 2)) = Some 5 \<and>
   slowMultiplier (status (applySlow halfSlowedMob (7 / 10) 1 2)) = Some (1 / 2) \<and>
   slowMultiplier (status (applySlow halfSlowedMob (3 / 10) 9 2)) = Some (3 / 10) \<and>
   slowUntil (status (applySlow halfSlowedMob (3 / 10) 9 2)) = Some 11"
  using applySlow_slowed [of halfSlowedMob 5 "1 / 2" "7 / 10" 1 2]
        applySlow_slowed [of halfSlowedMob 5 "1 / 2" "3 / 10" 9 2]
  by (simp add: halfSlowedMob_def zeroSlowedMob_def)


section \<open>Properties of the catalog\<close>

lemma TOWER_DEFINITIONS_towerKey [simp]:
  "TOWER_DEFINITIONS (towerKey ty) = Own (towerDefinitionOf ty)"
  by (cases ty) (simp_all add: TOWER_DEFINITIONS_def objectLookup_def)

lemma MOB_DEFINITIONS_mobKey [simp]:
  "MOB_DEFINITIONS (mobKey ty) = Own (mobDefinitionOf ty)"
  by (cases ty) (simp_all add: MOB_DEFINITIONS_def objectLookup_def)

lemma mdType_mobDefinitionOf [simp]: "mdType (mobDefinitionOf ty) = ty"
  by (cases ty) (simp_all add: normalDefinition_def fastDefinition_def tankDefinition_def flyingDefinition_def)

lemma speedMultiplier_nonzero:
  "orDefault (speedMultiplier (mobDefinitionOf ty)) 1 =
     (case speedMultiplier (mobDefinitionOf ty) of None \<Rightarrow> 1 | Some m \<Rightarrow> m)"
  by (cases ty) (simp_all add: orDefault_def normalDefinition_def fastDefinition_def tankDefinition_def flyingDefinition_def)

lemma baseHp_integral: "of_int \<lfloor>baseHp (mobDefinitionOf ty)\<rfloor> = baseHp (mobDefinitionOf ty)"
  by (cases ty) (simp_all add: normalDefinition_def fastDefinition_def tankDefinition_def flyingDefinition_def)

text \<open>
  C6: for every mob type of the catalog and every wave number \<open>n \<ge> 1\<close>,
  \<open>calculateMobStats\<close> returns \<open>hp = floor(baseHp * hpMultiplier^(n-1))\<close> (also as
  \<open>maxHp\<close>) and \<open>speed = baseSpeed * s^(n-1)\<close>, where \<open>s\<close> is the definition's
  \<open>speedMultiplier\<close> or 1 when it has none; armor and bounty are the definition's.  For
  \<open>n = 1\<close> the hit points and the speed are exactly the base values.  (Powers and
  products are those of the reals.)
\<close>

theorem calculateMobStats_formula:
  "(1 \<le> n \<longrightarrow>
      calculateMobStats (mobKey ty) n =
        Returns \<lparr>msHp = of_int \<lfloor>baseHp (mobDefinitionOf ty) * hpMultiplier (mobDefinitionOf ty) ^ nat (n - 1)\<rfloor>,
                 msMaxHp = of_int \<lfloor>baseHp (mobDefinitionOf ty) * hpMultiplier (mobDefinitionOf ty) ^ nat (n - 1)\<rfloor>,
                 msSpeed = baseSpeed (mobDefinitionOf ty)
                            * (case speedMultiplier (mobDefinitionOf ty) of None \<Rightarrow> 1 | Some m \<Rightarrow> m) ^ nat (n - 1),
                 msArmor = mdArmor (mobDefinitionOf ty),
                 msBounty = mdBounty (mobDefinitionOf ty),
                 msType = ty,
                 msName = mdName (mobDefinitionOf ty)\<rparr>)
   \<and> (\<exists>st. calculateMobStats (mobKey ty) 1 = Returns st
           \<and> msHp st = baseHp (mobDefinitionOf ty)
           \<and> msSpeed st = baseSpeed (mobDefinitionOf ty))"
  by (simp add: calculateMobStats_def Let_def power_int_def speedMultiplier_nonzero baseHp_integral)

theorem calculateMobStats_formula_witness:
  "(1::int) \<le> 3 \<and>
   calculateMobStats ''fast'' 3 =
     Returns \<lparr>msHp = 33, msMaxHp = 33, msSpeed = 28 / 10 * (103 / 100) ^ 2, msArmor = 0,
              msBounty = 8, msType = Fast, msName = ''Wolf''\<rparr>"
  using calculateMobStats_formula [of 3 Fast]
  by (simp add: fastDefinition_def power2_eq_square)

lemma objectLookup_unknown:
  "map_of entries k = None \<Longrightarrow> k \<notin> set objectPrototypeKeys \<Longrightarrow> objectLookup entries k = Undefined"
  by (simp add: objectLookup_def)

lemma catalog_unknown_key:
  assumes "k \<notin> {''arrow'', ''cannon'', ''frost''}" and "k \<notin> set objectPrototypeKeys"
  shows "calculateTowerStats k tier = Throws (UnknownTowerType k)"
    and "calculateUpgradeCost k fromTier toTier = Inr 0"
  using assms by (simp_all add: calculateTowerStats_def calculateUpgradeCost_def TOWER_DEFINITIONS_def objectLookup_def)

lemma catalog_unknown_mob_key:
  assumes "k \<notin> {''normal'', ''fast'', ''tank'', ''flying''}" and "k \<notin> set objectPrototypeKeys"
  shows "calculateMobStats k n = Throws (UnknownMobType k)"
  using assms by (simp add: calculateMobStats_def MOB_DEFINITIONS_def objectLookup_def)

lemma calculateUpgradeCost_known:
  "calculateUpgradeCost (towerKey ty) fromTier toTier =
     Inr (if fromTier \<ge> toTier then 0 else upgradeStepCost ty toTier)"
  by (simp add: calculateUpgradeCost_def upgradeStepCost_def split: option.splits)

text \<open>
  C9: the claim is that \<open>calculateTowerStats\<close> and \<open>calculateMobStats\<close> throw for every
  string that is not a defined type, and that \<open>calculateUpgradeCost\<close> never throws.  The
  two lemmas above give this for every string that is neither a catalog key nor a member
  name of \<open>Object.prototype\<close>.  For the string \<open>constructor\<close> the lookup
  \<open>TOWER_DEFINITIONS[towerType]\<close> yields the inherited member, the guard
  \<open>if (!definition)\<close> does not fire, and the code behaves otherwise: the two stats
  functions return an object of \<open>undefined\<close>/\<open>NaN\<close> fields without throwing, and
  \<open>calculateUpgradeCost\<close> throws a \<open>TypeError\<close> on \<open>definition.upgrades.find\<close>.
\<close>

theorem catalog_inherited_key_evaluation:
  "''constructor'' \<notin> {''arrow'', ''cannon'', ''frost'', ''normal'', ''fast'', ''tank'', ''flying''} \<and>
   calculateTowerStats ''constructor'' 1 = ReturnsNonNumeric \<and>
   calculateMobStats ''constructor'' 1 = ReturnsNonNumeric \<and>
   calculateUpgradeCost ''constructor'' 1 2 = Inl TypeError"
  by (simp add: calculateTowerStats_def calculateMobStats_def calculateUpgradeCost_def
        TOWER_DEFINITIONS_def MOB_DEFINITIONS_def objectLookup_def objectPrototypeKeys_def)

lemma fold_applyUpgrade_cost:
  "bsCost (fold (applyUpgrade (towerDefinitionOf ty)) ts st) = bsCost st + sum_list (map (upgradeStepCost ty) ts)"
  by (induction ts arbitrary: st) (auto simp: applyUpgrade_def upgradeStepCost_def split: option.splits)

lemma calculateTowerStats_cost:
  "\<exists>stats. calculateTowerStats (towerKey ty) tier = Returns stats \<and> stCost stats = totalInvestment ty tier"
  by (simp add: calculateTowerStats_def Let_def fold_applyUpgrade_cost totalInvestment_def)

lemma upgradeStepCost_0: "upgradeStepCost ty 0 = 0"
  by (cases ty)
     (simp_all add: upgradeStepCost_def arrowDefinition_def cannonDefinition_def
        frostDefinition_def)

lemma calculateUpgradeCost_step:
  "calculateUpgradeCost (towerKey ty) (t - Suc 0) t = Inr (upgradeStepCost ty t)"
  by (cases t) (simp_all add: calculateUpgradeCost_known upgradeStepCost_0)

lemma addUpgradeCosts_sum:
  "addUpgradeCosts (towerKey ty) ts c = Inr (c + sum_list (map (upgradeStepCost ty) ts))"
  by (induction ts arbitrary: c) (simp_all add: calculateUpgradeCost_step)

lemma storeCalculateSellValue_investment:
  "storeCalculateSellValue tower = Returns (floor_times_0_7 (totalInvestment (ptType tower) (ptTier tower)))"
  by (simp add: storeCalculateSellValue_def addUpgradeCosts_sum totalInvestment_def)

text \<open>
  C10: the two sell-value computations agree.  For every tower type and every tier (in
  particular the tiers 1, 2, 3) the catalog's \<open>calculateSellValue(type, tier)\<close>, which
  floors \<open>calculateTowerStats(type, tier).cost * 0.7\<close>, returns the same integer as the
  store's \<open>calculateSellValue\<close> on a tower of that type and tier, which floors 0.7 times
  the base cost plus the upgrade costs of the tiers \<open>2 .. tier\<close>; both are the floored
  double product of 0.7 and the total investment.
\<close>

theorem sell_values_agree:
  "calculateSellValue (towerKey ty) tier =
     storeCalculateSellValue \<lparr>ptId = i, ptGridCoord = c, ptType = ty, ptTier = tier, ptLastAttackTime = l\<rparr>
   \<and> calculateSellValue (towerKey ty) tier = Returns (floor_times_0_7 (totalInvestment ty tier))"
  using calculateTowerStats_cost [of ty tier]
  by (auto simp: calculateSellValue_def storeCalculateSellValue_investment)

text \<open>Where the double product and exact arithmetic part.\<close>

lemma floor_times_0_7_rounding:
  "floor_times_0_7 90 = 62 \<and> \<lfloor>7 * 90 / 10 :: rat\<rfloor> = 63 \<and>
   floor_times_0_7 50 = 35 \<and> \<lfloor>7 * 50 / 10 :: rat\<rfloor> = 35"
  by code_simp

text \<open>The nine values; 62 and 118 are one below \<open>\<lfloor>0.7 * 90\<rfloor>\<close> and \<open>\<lfloor>0.7 * 170\<rfloor>\<close> of exact arithmetic.\<close>

lemma sell_value_table:
  "map (\<lambda>ty. map (\<lambda>tier. floor_times_0_7 (totalInvestment ty tier)) [1, 2, 3]) [Arrow, Cannon, Frost]
     = [[17, 38, 80], [35, 87, 171], [28, 62, 118]]"
  by code_simp

theorem sell_values_agree_witness:
  "calculateSellValue ''frost'' 2 = Returns 62 \<and>
   storeCalculateSellValue frostTower2 = Returns 62"
proof -
  have v: "floor_times_0_7 (totalInvestment Frost 2) = 62"
    by code_simp
  note a = sell_values_agree [of Frost 2 "''t1''" "\<lparr>gx = 3, gy = 4\<rparr>" None]
  have 1: "calculateSellValue ''frost'' 2 = Returns 62"
    using a [THEN conjunct2] by (simp add: v)
  have 2: "storeCalculateSellValue frostTower2 = calculateSellValue ''frost'' 2"
    using a [THEN conjunct1] by (simp add: frostTower2_def)
  show ?thesis using 1 2 by simp
qed

section \<open>Properties of the store actions\<close>

lemma calculateTowerStats_tier1:
  "calculateTowerStats (towerKey ty) (Suc 0) = Returns
     \<lparr>stDamage = tdDamage (towerDefinitionOf ty), stRange = tdRange (towerDefinitionOf ty),
      stAttackRate = tdAttackRate (towerDefinitionOf ty), stCost = baseCost (towerDefinitionOf ty),
      stDps = tdDamage (towerDefinitionOf ty) * tdAttackRate (towerDefinitionOf ty)\<rparr>"
  by (simp add: calculateTowerStats_def)

lemma buildTower_total: "\<exists>r. buildTower s fid coord ty = Inr r \<or> (\<exists>e. canBuildAt s coord = Inl e \<and> buildTower s fid coord ty = Inl (Thrown e))"
  by (auto simp: buildTower_def calculateTowerStats_tier1 Let_def split: sum.splits)

text \<open>
  Money at the store's actions, for every state.  With
  \<open>stats = calculateTowerStats(T, 1)\<close>: a \<open>buildTower\<close> rejected for insufficient funds
  or because \<open>canBuildAt\<close> is false returns the state unchanged, and an accepted one
  lowers \<open>money\<close> by exactly \<open>stats.cost\<close>; \<open>upgradeTower\<close> and \<open>sellTower\<close> on an
  unknown id, and \<open>upgradeTower\<close> on a tower of tier 3 or with insufficient funds,
  return the state unchanged (an accepted upgrade charges the step's cost); selling a
  tower raises \<open>money\<close> by the floored double product of 0.7 and the tower's total
  investment, the base cost plus the upgrade costs charged up to the tower's tier.
\<close>

lemma money_conservation:
  "\<exists>stats. calculateTowerStats (towerKey ty) 1 = Returns stats \<and>
     (money s < stCost stats \<or> canBuildAt s coord = Inr False \<longrightarrow>
        buildTower s fid coord ty = Inr s) \<and>
     (stCost stats \<le> money s \<and> canBuildAt s coord = Inr True \<longrightarrow>
        (\<exists>s'. buildTower s fid coord ty = Inr s' \<and> money s' = money s - stCost stats)) \<and>
     (getTowerById s tid = None \<longrightarrow> upgradeTower s tid = Inr s \<and> sellTower s tid = Inr s) \<and>
     (\<forall>t. getTowerById s tid = Some t \<longrightarrow>
        (3 \<le> ptTier t \<or> money s < upgradeStepCost (ptType t) (ptTier t + 1) \<longrightarrow>
           upgradeTower s tid = Inr s) \<and>
        (ptTier t < 3 \<and> upgradeStepCost (ptType t) (ptTier t + 1) \<le> money s \<longrightarrow>
           (\<exists>s'. upgradeTower s tid = Inr s' \<and>
                 money s' = money s - upgradeStepCost (ptType t) (ptTier t + 1))) \<and>
        (\<exists>s'. sellTower s tid = Inr s' \<and>
              money s' = money s + floor_times_0_7 (totalInvestment (ptType t) (ptTier t))))"
  by (auto simp: buildTower_def calculateTowerStats_tier1 Let_def upgradeTower_def sellTower_def
        calculateUpgradeCost_known storeCalculateSellValue_investment split: sum.splits)


lemma canBuildAt_example_occupied: "canBuildAt exampleStore \<lparr>gx = 3, gy = 4\<rparr> = Inr False"
  by (simp add: canBuildAt_def exampleStore_def exampleMap_def GAME_CONFIG_def frostTower2_def)

lemma canBuildAt_example_free: "canBuildAt exampleStore \<lparr>gx = 3, gy = 5\<rparr> = Inr True"
  by (simp add: canBuildAt_def exampleStore_def exampleMap_def GAME_CONFIG_def frostTower2_def)

lemma money_conservation_examples:
  "canBuildAt exampleStore \<lparr>gx = 3, gy = 4\<rparr> = Inr False \<and>
   buildTower exampleStore ''t2'' \<lparr>gx = 3, gy = 4\<rparr> Arrow = Inr exampleStore \<and>
   money (exampleStore\<lparr>money := 10\<rparr>) < 25 \<and>
   buildTower (exampleStore\<lparr>money := 10\<rparr>) ''t2'' \<lparr>gx = 3, gy = 5\<rparr> Arrow
     = Inr (exampleStore\<lparr>money := 10\<rparr>) \<and>
   canBuildAt exampleStore \<lparr>gx = 3, gy = 5\<rparr> = Inr True \<and>
   (\<exists>s'. buildTower exampleStore ''t2'' \<lparr>gx = 3, gy = 5\<rparr> Arrow = Inr s' \<and> money s' = 75) \<and>
   getTowerById exampleStore ''zz'' = None \<and>
   upgradeTower exampleStore ''zz'' = Inr exampleStore \<and>
   sellTower exampleStore ''zz'' = Inr exampleStore \<and>
   getTowerById exampleStore ''t1'' = Some frostTower2 \<and>
   upgradeTower (exampleStore\<lparr>money := 10\<rparr>) ''t1'' = Inr (exampleStore\<lparr>money := 10\<rparr>) \<and>
   (\<exists>s'. upgradeTower exampleStore ''t1'' = Inr s' \<and> money s' = 20) \<and>
   (\<exists>s'. sellTower exampleStore ''t1'' = Inr s' \<and> money s' = 162)"
proof -
  have c1: "calculateTowerStats (towerKey Arrow) 1 = Returns st \<Longrightarrow> stCost st = 25" for st
    using calculateTowerStats_tier1 [of Arrow] by (auto simp: arrowDefinition_def)
  have g0: "getTowerById exampleStore ''zz'' = None"
    by (simp add: getTowerById_def exampleStore_def frostTower2_def)
  have g1: "getTowerById exampleStore ''t1'' = Some frostTower2"
    by (simp add: getTowerById_def exampleStore_def frostTower2_def)
  have g2: "getTowerById (exampleStore\<lparr>money := 10\<rparr>) ''t1'' = Some frostTower2"
    by (simp add: getTowerById_def exampleStore_def frostTower2_def)
  have u: "upgradeStepCost Frost 3 = 80"
    by (simp add: upgradeStepCost_def frostDefinition_def)
  have v: "floor_times_0_7 (totalInvestment Frost 2) = 62"
    by code_simp
  have m: "money exampleStore = 100" "ptType frostTower2 = Frost" "ptTier frostTower2 = 2"
    by (simp_all add: exampleStore_def frostTower2_def)
  from money_conservation [of Arrow exampleStore "\<lparr>gx = 3, gy = 4\<rparr>" "''t2''" "''zz''"]
  have A: "buildTower exampleStore ''t2'' \<lparr>gx = 3, gy = 4\<rparr> Arrow = Inr exampleStore"
    and B: "upgradeTower exampleStore ''zz'' = Inr exampleStore"
           "sellTower exampleStore ''zz'' = Inr exampleStore"
    using canBuildAt_example_occupied g0 by auto
  from money_conservation [of Arrow "exampleStore\<lparr>money := 10\<rparr>" "\<lparr>gx = 3, gy = 5\<rparr>" "''t2''" "''t1''"]
  have C: "buildTower (exampleStore\<lparr>money := 10\<rparr>) ''t2'' \<lparr>gx = 3, gy = 5\<rparr> Arrow
             = Inr (exampleStore\<lparr>money := 10\<rparr>)"
    and D: "upgradeTower (exampleStore\<lparr>money := 10\<rparr>) ''t1'' = Inr (exampleStore\<lparr>money := 10\<rparr>)"
    using c1 g2 u m by auto
  from money_conservation [of Arrow exampleStore "\<lparr>gx = 3, gy = 5\<rparr>" "''t2''" "''t1''"]
  have E: "\<exists>s'. buildTower exampleStore ''t2'' \<lparr>gx = 3, gy = 5\<rparr> Arrow = Inr s' \<and> money s' = 75"
    and F: "\<exists>s'. upgradeTower exampleStore ''t1'' = Inr s' \<and> money s' = 20"
    and G: "\<exists>s'. sellTower exampleStore ''t1'' = Inr s' \<and> money s' = 162"
    using c1 g1 u v m canBuildAt_example_free by auto
  show ?thesis
    using A B C D E F G g0 g1 canBuildAt_example_occupied canBuildAt_example_free
    by (simp add: exampleStore_def)
qed

text \<open>
  C1: the claim is that a rejected \<open>buildTower\<close>, \<open>upgradeTower\<close> or \<open>sellTower\<close> leaves
  \<open>money\<close> unchanged, that an accepted \<open>buildTower\<close> lowers it by
  \<open>calculateTowerStats(T, 1).cost\<close>, and that an accepted \<open>sellTower\<close> raises it by
  exactly \<open>floor(totalInvestment * 0.7)\<close>, 70 percent of the investment, floored.  The
  first two hold (lemma \<open>money_conservation\<close>).  The refund is computed as
  \<open>Math.floor(totalCost * 0.7)\<close> in double arithmetic, where \<open>90 * 0.7\<close> is
  \<open>62.99999999999999\<close>: selling a frost tower of tier 2, in which 40 + 50 = 90 was
  invested, raises \<open>money\<close> from 100 to 162, while 70 percent of 90 is 63; a frost tower
  of tier 3 (investment 170) refunds 118, while 70 percent of 170 is 119.
\<close>

theorem sellTower_frost_refund_evaluation:
  "getTowerById exampleStore ''t1'' = Some frostTower2 \<and>
   ptType frostTower2 = Frost \<and> ptTier frostTower2 = 2 \<and>
   totalInvestment Frost 2 = 90 \<and>
   money exampleStore = 100 \<and>
   (case sellTower exampleStore ''t1'' of Inl e \<Rightarrow> None | Inr s' \<Rightarrow> Some (money s')) = Some 162 \<and>
   \<lfloor>90 * (7 / 10) :: rat\<rfloor> = 63 \<and>
   totalInvestment Frost 3 = 170 \<and>
   storeCalculateSellValue (frostTower2\<lparr>ptTier := 3\<rparr>) = Returns 118 \<and>
   \<lfloor>170 * (7 / 10) :: rat\<rfloor> = 119"
proof -
  have g: "getTowerById exampleStore ''t1'' = Some frostTower2"
    by (simp add: getTowerById_def exampleStore_def frostTower2_def)
  have t: "ptType frostTower2 = Frost" "ptTier frostTower2 = 2"
    by (simp_all add: frostTower2_def)
  have i: "totalInvestment Frost 2 = 90" "totalInvestment Frost 3 = 170"
    by code_simp+
  have v: "floor_times_0_7 90 = 62" "floor_times_0_7 170 = 118"
    by code_simp+
  have r: "\<lfloor>90 * (7 / 10) :: rat\<rfloor> = 63" "\<lfloor>170 * (7 / 10) :: rat\<rfloor> = 119"
    by code_simp+
  have s2: "storeCalculateSellValue frostTower2 = Returns 62"
    by (simp add: storeCalculateSellValue_investment t i v)
  have s3: "storeCalculateSellValue (frostTower2\<lparr>ptTier := 3\<rparr>) = Returns 118"
    by (simp add: storeCalculateSellValue_investment frostTower2_def i v)
  have m: "money exampleStore = 100"
    by (simp add: exampleStore_def)
  have "(case sellTower exampleStore ''t1'' of Inl e \<Rightarrow> None | Inr s' \<Rightarrow> Some (money s')) = Some 162"
    by (simp add: sellTower_def g s2 m)
  with g t i r s3 m show ?thesis by simp
qed

section \<open>Properties of the path\<close>

text \<open>
  C7: for every non-empty path and every tile size, \<open>getPositionOnPath(path, p, ts)\<close> is
  \<open>gridToWorld(path[0], ts)\<close> for every \<open>p \<le> 0\<close> and \<open>gridToWorld(path[last], ts)\<close> for
  every \<open>p \<ge> 1\<close>: progress outside \<open>[0, 1]\<close> clamps to the endpoints of the path.
\<close>

theorem getPositionOnPath_clamps:
  "coords \<noteq> [] \<Longrightarrow>
     (p \<le> 0 \<longrightarrow> getPositionOnPath coords p ts = gridToWorld (coords ! 0) ts) \<and>
     (1 \<le> p \<longrightarrow> getPositionOnPath coords p ts = gridToWorld (last coords) ts)"
proof (cases "length coords = 1")
  case True
  assume ne: "coords \<noteq> []"
  from True obtain c where "coords = [c]"
    by (cases coords) auto
  then show ?thesis
    by (simp add: getPositionOnPath_def)
next
  case False
  assume ne: "coords \<noteq> []"
  then have "last coords = coords ! (length coords - 1)"
    by (simp add: last_conv_nth)
  with ne False show ?thesis
    by (auto simp: getPositionOnPath_def)
qed

theorem getPositionOnPath_clamps_witness:
  "examplePath \<noteq> [] \<and> (- 1 / 2 :: real) \<le> 0 \<and> (1 :: real) \<le> 3 / 2 \<and>
   getPositionOnPath examplePath (- 1 / 2) 40 = \<lparr>vx = 20, vy = 260\<rparr> \<and>
   getPositionOnPath examplePath (3 / 2) 40 = \<lparr>vx = 620, vy = 260\<rparr>"
proof -
  have ne: "examplePath \<noteq> []"
    by (simp add: examplePath_def)
  have a: "examplePath ! 0 = \<lparr>gx = 0, gy = 6\<rparr>" and b: "last examplePath = \<lparr>gx = 15, gy = 6\<rparr>"
    by (simp_all add: examplePath_def last_map)
  from getPositionOnPath_clamps [OF ne, of "- 1 / 2" 40] getPositionOnPath_clamps [OF ne, of "3 / 2" 40]
  show ?thesis
    using ne by (simp add: a b gridToWorld_def)
qed

section \<open>Properties of targeting\<close>

text \<open>
  The fold of \<open>getFirstMob\<close> keeps the leftmost element of greatest path progress:
  the result sits at an index \<open>i\<close>, nothing before \<open>i\<close> reaches its progress and
  nothing after exceeds it.
\<close>

lemma foldl_furthest:
  "\<exists>i < length (m # ms).
      foldl (\<lambda>closest mob. if pathProgress mob > pathProgress closest then mob else closest) m ms
        = (m # ms) ! i \<and>
      (\<forall>j < i. pathProgress ((m # ms) ! j) < pathProgress ((m # ms) ! i)) \<and>
      (\<forall>j < length (m # ms). pathProgress ((m # ms) ! j) \<le> pathProgress ((m # ms) ! i))"
proof (induction ms rule: rev_induct)
  case Nil
  show ?case by simp
next
  case (snoc x xs)
  let ?f = "\<lambda>closest mob. if pathProgress mob > pathProgress closest then mob else closest"
  from snoc obtain i where i: "i < length (m # xs)"
    and r: "foldl ?f m xs = (m # xs) ! i"
    and before: "\<forall>j < i. pathProgress ((m # xs) ! j) < pathProgress ((m # xs) ! i)"
    and all: "\<forall>j < length (m # xs). pathProgress ((m # xs) ! j) \<le> pathProgress ((m # xs) ! i)"
    by blast
  have nth_old: "(m # xs @ [x]) ! j = (m # xs) ! j" if "j < length (m # xs)" for j
    using that by (metis append_Cons nth_append)
  have nth_new: "(m # xs @ [x]) ! length (m # xs) = x"
    by (metis append_Cons nth_append_length)
  show ?case
  proof (cases "pathProgress x > pathProgress ((m # xs) ! i)")
    case True
    have "foldl ?f m (xs @ [x]) = x"
      using True r by simp
    moreover have "\<forall>j < length (m # xs). pathProgress ((m # xs @ [x]) ! j) < pathProgress x"
      using all True nth_old by fastforce
    moreover have "\<forall>j < length (m # xs @ [x]). pathProgress ((m # xs @ [x]) ! j) \<le> pathProgress x"
    proof (intro allI impI)
      fix j assume "j < length (m # xs @ [x])"
      then consider "j < length (m # xs)" | "j = length (m # xs)" by fastforce
      then show "pathProgress ((m # xs @ [x]) ! j) \<le> pathProgress x"
      proof cases
        case 1
        with all True nth_old show ?thesis by fastforce
      next
        case 2
        with nth_new show ?thesis by simp
      qed
    qed
    ultimately show ?thesis
      using nth_new by (intro exI [of _ "length (m # xs)"]) simp
  next
    case False
    have "foldl ?f m (xs @ [x]) = (m # xs) ! i"
      using False r by simp
    moreover have "\<forall>j < length (m # xs @ [x]). pathProgress ((m # xs @ [x]) ! j) \<le> pathProgress ((m # xs) ! i)"
    proof (intro allI impI)
      fix j assume "j < length (m # xs @ [x])"
      then consider "j < length (m # xs)" | "j = length (m # xs)" by fastforce
      then show "pathProgress ((m # xs @ [x]) ! j) \<le> pathProgress ((m # xs) ! i)"
      proof cases
        case 1
        with all nth_old show ?thesis by fastforce
      next
        case 2
        with nth_new False show ?thesis by simp
      qed
    qed
    moreover have "\<forall>j < i. pathProgress ((m # xs @ [x]) ! j) < pathProgress ((m # xs) ! i)"
      using before i nth_old by fastforce
    ultimately show ?thesis
      using i nth_old [OF i] by (intro exI [of _ i]) simp
  qed
qed

lemma getFirstMob_leftmost_furthest:
  assumes "cands \<noteq> []"
  shows "\<exists>i < length cands.
           getFirstMob cands = Some (cands ! i) \<and>
           (\<forall>j < i. pathProgress (cands ! j) < pathProgress (cands ! i)) \<and>
           (\<forall>j < length cands. pathProgress (cands ! j) \<le> pathProgress (cands ! i))"
proof -
  from assms obtain m ms where c: "cands = m # ms"
    by (cases cands) auto
  show ?thesis
    unfolding c getFirstMob_def reduce.simps using foldl_furthest [of m ms] by blast
qed

lemma reduce_None: "reduce f xs = None \<longleftrightarrow> xs = []"
  by (cases xs) simp_all

text \<open>
  C5: \<open>findTarget\<close> first restricts the mobs to those whose Euclidean distance from the
  tower's position is at most the tower's range and whose \<open>reachedEnd\<close> flag is false,
  and returns none exactly when no mob is left (under every strategy).  Under the
  strategy \<open>first\<close> it returns the candidate of largest \<open>pathProgress\<close>; among
  candidates of equal largest progress the one met first in list order wins: every
  candidate before the chosen one has strictly smaller progress.
\<close>

theorem findTarget_first:
  "mobsInRangeOf tower ms =
     filter (\<lambda>mob. distance (twPos tower) (mobPos mob) \<le> twRange tower \<and> \<not> reachedEnd mob) ms
   \<and> (findTarget tower ms strategy = None \<longleftrightarrow> mobsInRangeOf tower ms = [])
   \<and> (mobsInRangeOf tower ms \<noteq> [] \<longrightarrow>
        (\<exists>i < length (mobsInRangeOf tower ms).
           findTarget tower ms First = Some (mobsInRangeOf tower ms ! i) \<and>
           (\<forall>j < length (mobsInRangeOf tower ms).
              pathProgress (mobsInRangeOf tower ms ! j) \<le> pathProgress (mobsInRangeOf tower ms ! i)) \<and>
           (\<forall>j < i. pathProgress (mobsInRangeOf tower ms ! j)
                       < pathProgress (mobsInRangeOf tower ms ! i))))"
proof (intro conjI impI)
  show "mobsInRangeOf tower ms =
     filter (\<lambda>mob. distance (twPos tower) (mobPos mob) \<le> twRange tower \<and> \<not> reachedEnd mob) ms"
    by (simp add: mobsInRangeOf_def)
  show "findTarget tower ms strategy = None \<longleftrightarrow> mobsInRangeOf tower ms = []"
    by (cases strategy)
       (simp_all add: findTarget_def Let_def getFirstMob_def getLastMob_def getNearestMob_def
          getStrongestMob_def getWeakestMob_def reduce_None)
next
  assume ne: "mobsInRangeOf tower ms \<noteq> []"
  from getFirstMob_leftmost_furthest [OF ne] ne
  show "\<exists>i < length (mobsInRangeOf tower ms).
           findTarget tower ms First = Some (mobsInRangeOf tower ms ! i) \<and>
           (\<forall>j < length (mobsInRangeOf tower ms).
              pathProgress (mobsInRangeOf tower ms ! j) \<le> pathProgress (mobsInRangeOf tower ms ! i)) \<and>
           (\<forall>j < i. pathProgress (mobsInRangeOf tower ms ! j)
                       < pathProgress (mobsInRangeOf tower ms ! i))"
    by (simp add: findTarget_def Let_def) blast
qed


lemma sqrt_square: "0 \<le> a \<Longrightarrow> sqrt (a * a) = a"
  by simp

lemma exampleMobs_in_range:
  "mobsInRangeOf exampleTower exampleMobs =
     [mobAt ''a'' 30 0 (2 / 10) False, mobAt ''b'' 0 40 (6 / 10) False,
      mobAt ''d'' 0 0 (6 / 10) False]"
proof -
  have "sqrt 900 = 30" "sqrt 1600 = 40" "sqrt 40000 = 200"
    using sqrt_square [of 30] sqrt_square [of 40] sqrt_square [of 200] by simp_all
  then show ?thesis
    by (simp add: mobsInRangeOf_def exampleMobs_def exampleTower_def mobAt_def distance_def)
qed

theorem findTarget_first_witness:
  "mobsInRangeOf exampleTower exampleMobs \<noteq> [] \<and>
   findTarget exampleTower exampleMobs First = Some (mobAt ''b'' 0 40 (6 / 10) False) \<and>
   findTarget exampleTower [] First = None"
proof -
  let ?c = "mobsInRangeOf exampleTower exampleMobs"
  have ne: "?c \<noteq> []"
    by (simp add: exampleMobs_in_range)
  from findTarget_first [of exampleTower exampleMobs First] ne
  obtain i where i: "i < length ?c"
    and t: "findTarget exampleTower exampleMobs First = Some (?c ! i)"
    and le: "\<forall>j < length ?c. pathProgress (?c ! j) \<le> pathProgress (?c ! i)"
    and lt: "\<forall>j < i. pathProgress (?c ! j) < pathProgress (?c ! i)"
    by blast
  from i have "i = 0 \<or> i = 1 \<or> i = 2"
    by (auto simp: exampleMobs_in_range)
  moreover have "i \<noteq> 0"
  proof
    assume "i = 0"
    with le [rule_format, of 1] show False
      by (simp add: exampleMobs_in_range mobAt_def)
  qed
  moreover have "i \<noteq> 2"
  proof
    assume "i = 2"
    with lt [rule_format, of 1] show False
      by (simp add: exampleMobs_in_range mobAt_def)
  qed
  ultimately have "i = 1" by blast
  with t have "findTarget exampleTower exampleMobs First = Some (mobAt ''b'' 0 40 (6 / 10) False)"
    by (simp add: exampleMobs_in_range)
  moreover have "findTarget exampleTower [] First = None"
    using findTarget_first [of exampleTower "[]" First] by (simp add: mobsInRangeOf_def)
  ultimately show ?thesis using ne by simp
qed

section \<open>Properties of the simulation engine\<close>

subsection \<open>Mobs\<close>

lemma reachedEnd_moveMob [simp]: "reachedEnd (moveMob s dt mob) = reachedEnd mob"
  by (simp add: moveMob_def updateMobEffects_def Let_def split: option.splits)

lemma updateMobsLoop_livesLost:
  "snd (updateMobsLoop s dt ms (acc, n)) = n + int (length (filter (reachesEnd s dt) ms))"
  by (induction ms arbitrary: acc n) (auto simp: reachesEnd_def Let_def)

lemma updateMobs_lives:
  "lives (updateMobs s dt) = max 0 (lives s - int (length (filter (reachesEnd s dt) (mobs s))))"
proof -
  obtain ms n where l: "updateMobsLoop s dt (mobs s) ([], 0) = (ms, n)"
    by (cases "updateMobsLoop s dt (mobs s) ([], 0)")
  with updateMobsLoop_livesLost [of s dt "mobs s" "[]" 0]
  have "n = int (length (filter (reachesEnd s dt) (mobs s)))" by simp
  with l show ?thesis by (simp add: updateMobs_def)
qed

lemma updateMobs_frame [simp]:
  "currentWaveIndex (updateMobs s dt) = currentWaveIndex s"
  "simulationTime (updateMobs s dt) = simulationTime s"
  "phase (updateMobs s dt) = phase s"
  "money (updateMobs s dt) = money s"
  by (simp_all add: updateMobs_def split: prod.splits)

subsection \<open>Towers\<close>

lemma calculateTowerStats_known:
  "\<exists>stats. calculateTowerStats (towerKey ty) tier = Returns stats"
  using calculateTowerStats_cost by blast

lemma deriveTower_total: "\<exists>tower. deriveTower placedTower = Inr tower"
proof -
  obtain stats where "calculateTowerStats (towerKey (ptType placedTower)) (ptTier placedTower) = Returns stats"
    using calculateTowerStats_known by blast
  then show ?thesis by (simp add: deriveTower_def)
qed

lemma updateTowersLoop_total:
  "\<exists>ts ps. updateTowersLoop env s i pts acc = Inr (ts, ps)"
proof (induction pts arbitrary: i acc)
  case Nil
  show ?case by (cases acc) simp
next
  case (Cons pt pts)
  obtain tower where d: "deriveTower pt = Inr tower"
    using deriveTower_total by blast
  obtain a b where acc: "acc = (a, b)" by (cases acc)
  show ?case
    using Cons.IH by (simp add: acc d split: option.splits)
qed

lemma updateTowers_total:
  "\<exists>ts ps. updateTowers env s = Inr (s\<lparr>towers := ts, projectiles := ps\<rparr>)"
proof -
  obtain ts ps where "updateTowersLoop env s 0 (towers s) ([], projectiles s) = Inr (ts, ps)"
    using updateTowersLoop_total by blast
  then show ?thesis by (auto simp: updateTowers_def)
qed

subsection \<open>Projectiles\<close>

lemma updateProjectiles_frame [simp]:
  "currentWaveIndex (updateProjectiles s dt) = currentWaveIndex s"
  "simulationTime (updateProjectiles s dt) = simulationTime s"
  "phase (updateProjectiles s dt) = phase s"
  "lives (updateProjectiles s dt) = lives s"
  by (simp_all add: updateProjectiles_def split: prod.splits)

subsection \<open>Waves\<close>

lemma calculateMobStats_known:
  "k \<in> {''normal'', ''fast'', ''tank'', ''flying''} \<Longrightarrow> \<exists>st. calculateMobStats k n = Returns st"
  by (auto simp: calculateMobStats_def MOB_DEFINITIONS_def objectLookup_def Let_def)

lemma spawnGroup_total:
  assumes "k \<in> {''normal'', ''fast'', ''tank'', ''flying''}"
  shows "\<exists>new d. spawnGroup env s w b k c (ms, d0) = Inr (ms @ new, d) \<and> length new = c"
proof (induction c arbitrary: ms d0)
  case 0
  show ?case by simp
next
  case (Suc c)
  obtain st where st: "calculateMobStats k w = Returns st"
    using calculateMobStats_known [OF assms] by blast
  let ?mob = "\<lparr>mobId = spawnedMobId env (length ms),
               mobPos = getPositionOnPath (pathCoords s) 0 (tileSize GAME_CONFIG),
               hp = msHp st, maxHp = msMaxHp st, speed = msSpeed st, armor = msArmor st,
               mobType = msType st, bounty = msBounty st, pathProgress = - d0 / 10,
               status = \<lparr>slowUntil = None, slowMultiplier = None\<rparr>, reachedEnd = False\<rparr>"
  from Suc.IH [of "ms @ [?mob]" "d0 + b"]
  obtain new d where "spawnGroup env s w b k c (ms @ [?mob], d0 + b) = Inr ((ms @ [?mob]) @ new, d)"
    and "length new = c" by blast
  then show ?case
    by (intro exI [of _ "?mob # new"] exI [of _ d]) (simp add: st Let_def)
qed

lemma spawnGroups_total:
  assumes "\<forall>(k, c) \<in> set groups. k \<in> {''normal'', ''fast'', ''tank'', ''flying''}"
  shows "\<exists>new d. spawnGroups env s w b groups (ms, d0) = Inr (ms @ new, d)
                  \<and> length new = sum_list (map snd groups)"
  using assms
proof (induction groups arbitrary: ms d0)
  case Nil
  show ?case by simp
next
  case (Cons g groups)
  obtain k c where g: "g = (k, c)" by (cases g)
  with Cons.prems have k: "k \<in> {''normal'', ''fast'', ''tank'', ''flying''}" by simp
  from spawnGroup_total [OF k, of env s w b c ms d0]
  obtain new1 d1 where 1: "spawnGroup env s w b k c (ms, d0) = Inr (ms @ new1, d1)"
    and l1: "length new1 = c" by blast
  from Cons.IH [of "ms @ new1" "d1 + 15 / 10"] Cons.prems
  obtain new2 d2 where 2: "spawnGroups env s w b groups (ms @ new1, d1 + 15 / 10) = Inr ((ms @ new1) @ new2, d2)"
    and l2: "length new2 = sum_list (map snd groups)" by auto
  show ?case
    using 2 by (intro exI [of _ "new1 @ new2"] exI [of _ d2]) (simp add: g 1 l1 l2)
qed

lemma waveComposition_keys:
  "\<forall>(k, c) \<in> set (waveComposition w). k \<in> {''normal'', ''fast'', ''tank'', ''flying''}"
  by (auto simp: waveComposition_def)

lemma spawnWave_eq:
  "spawnWave env s =
     Inr (s\<lparr>mobs := mobs s @ waveMobs env s,
            currentWaveIndex := currentWaveIndex s + 1,
            phase := WaveActive\<rparr>)"
  and length_waveMobs:
  "length (waveMobs env s) = sum_list (map snd (waveComposition (currentWaveIndex s + 1)))"
proof -
  let ?w = "currentWaveIndex s + 1"
  let ?b = "max (3 / 10) (12 / 10 - of_int ?w * (1 / 10)) :: real"
  have "\<exists>new d. spawnGroups env s ?w ?b (waveComposition ?w) ([], 0) = Inr ([] @ new, d)
                  \<and> length new = sum_list (map snd (waveComposition ?w))"
    by (rule spawnGroups_total [OF waveComposition_keys])
  then obtain new d where
    "spawnGroups env s ?w ?b (waveComposition ?w) ([], 0) = Inr (new, d)"
    and "length new = sum_list (map snd (waveComposition ?w))"
    by auto
  then show "spawnWave env s =
     Inr (s\<lparr>mobs := mobs s @ waveMobs env s,
            currentWaveIndex := currentWaveIndex s + 1,
            phase := WaveActive\<rparr>)"
    and "length (waveMobs env s) = sum_list (map snd (waveComposition (currentWaveIndex s + 1)))"
    by (simp_all add: spawnWave_def waveMobs_def Let_def)
qed

lemma updateWaveSpawning_eq:
  "updateWaveSpawning env s =
     Inr (if \<lfloor>simulationTime s / 15\<rfloor> > currentWaveIndex s \<and> currentWaveIndex s < 10
          then s\<lparr>mobs := mobs s @ waveMobs env s,
                 currentWaveIndex := currentWaveIndex s + 1,
                 phase := WaveActive\<rparr>
          else s)"
  by (simp add: updateWaveSpawning_def Let_def spawnWave_eq)

lemma updateGamePhase_frame [simp]:
  "currentWaveIndex (updateGamePhase s) = currentWaveIndex s"
  "lives (updateGamePhase s) = lives s"
  "mobs (updateGamePhase s) = mobs s"
  by (simp_all add: updateGamePhase_def)

lemma pathCoords_frame [simp]:
  "pathCoords (updateMobs s dt) = pathCoords s"
  "pathCoords (updateProjectiles s dt) = pathCoords s"
  "pathCoords (startTick s dt) = pathCoords s"
  by (simp_all add: updateMobs_def updateProjectiles_def startTick_def split: prod.splits)

lemma startTick_frame [simp]:
  "currentWaveIndex (startTick s dt) = currentWaveIndex s"
  "simulationTime (startTick s dt) = simulationTime s + dt * gameSpeed s"
  "phase (startTick s dt) = phase s"
  "lives (startTick s dt) = lives s"
  "mobs (startTick s dt) = mobs s"
  by (simp_all add: startTick_def)

lemma spawnGroup_pathCoords:
  "pathCoords s = pathCoords s' \<Longrightarrow> spawnGroup env s w b k c acc = spawnGroup env s' w b k c acc"
  by (induction env s w b k c acc rule: spawnGroup.induct) (simp_all split: outcome.splits)

lemma spawnGroups_pathCoords:
  assumes "pathCoords s = pathCoords s'"
  shows "spawnGroups env s w b gs acc = spawnGroups env s' w b gs acc"
proof (induction gs arbitrary: acc)
  case Nil
  show ?case by simp
next
  case (Cons g gs)
  obtain k c where g: "g = (k, c)" by (cases g)
  show ?case
    using Cons.IH by (simp add: g spawnGroup_pathCoords [OF assms] split: sum.splits)
qed

lemma waveMobs_cong:
  "pathCoords s = pathCoords s' \<Longrightarrow> currentWaveIndex s = currentWaveIndex s' \<Longrightarrow>
   waveMobs env s = waveMobs env s'"
  by (simp add: waveMobs_def spawnGroups_pathCoords [of s s'])

lemma advanceTick_shortCircuited:
  "shortCircuited s \<Longrightarrow> advanceTick env s dt = Inr s"
  by (auto simp: advanceTick_def shortCircuited_def)

text \<open>A tick that is not short-circuited, stage by stage.\<close>

lemma advanceTick_running:
  assumes "\<not> shortCircuited s"
  shows "\<exists>s3 s'. updateTowers env (updateMobs (startTick s dt) (scaledDelta s dt)) = Inr s3 \<and>
           advanceTick env s dt = Inr s' \<and>
           lives s' = max 0 (lives s - int (length (filter (reachesEnd (startTick s dt) (scaledDelta s dt)) (mobs s)))) \<and>
           currentWaveIndex s' = (if waveDue s dt then currentWaveIndex s + 1 else currentWaveIndex s) \<and>
           mobs s' = (if waveDue s dt
                      then mobs (updateProjectiles s3 (scaledDelta s dt)) @ waveMobs env s
                      else mobs (updateProjectiles s3 (scaledDelta s dt))) \<and>
           (waveDue s dt \<longrightarrow> phase s' = (if lives s' \<le> 0 then Defeat else WaveActive))"
proof -
  let ?d = "scaledDelta s dt"
  let ?s2 = "updateMobs (startTick s dt) ?d"
  obtain ts ps where t: "updateTowers env ?s2 = Inr (?s2\<lparr>towers := ts, projectiles := ps\<rparr>)"
    using updateTowers_total by blast
  let ?s3 = "?s2\<lparr>towers := ts, projectiles := ps\<rparr>"
  let ?s4 = "updateProjectiles ?s3 ?d"
  have cwi4: "currentWaveIndex ?s4 = currentWaveIndex s"
    and time4: "simulationTime ?s4 = simulationTime s + dt * gameSpeed s"
    and path4: "pathCoords ?s4 = pathCoords s"
    and lives4: "lives ?s4 = max 0 (lives s - int (length (filter (reachesEnd (startTick s dt) ?d) (mobs s))))"
    by (simp_all add: updateMobs_lives)
  have wm: "waveMobs env ?s4 = waveMobs env s"
    by (rule waveMobs_cong) (simp_all add: cwi4 path4)
  let ?s5 = "if waveDue s dt
             then ?s4\<lparr>mobs := mobs ?s4 @ waveMobs env s,
                      currentWaveIndex := currentWaveIndex s + 1, phase := WaveActive\<rparr>
             else ?s4"
  have w: "updateWaveSpawning env ?s4 = Inr ?s5"
    by (simp add: updateWaveSpawning_eq cwi4 time4 wm waveDue_def)
  have run: "advanceTick env s dt = Inr (updateGamePhase ?s5)"
    using assms t w
    by (simp add: advanceTick_def shortCircuited_def Let_def startTick_def scaledDelta_def)
  have ph: "phase (updateGamePhase ?s5) = (if lives (updateGamePhase ?s5) \<le> 0 then Defeat else WaveActive)"
    if due: "waveDue s dt"
  proof -
    have "length (waveMobs env s) = 57" if "currentWaveIndex s + 1 \<ge> 10"
    proof -
      from due that have "currentWaveIndex s + 1 = 10" by (simp add: waveDue_def)
      then show ?thesis by (simp add: length_waveMobs waveComposition_def)
    qed
    then have "currentWaveIndex s + 1 \<ge> 10 \<Longrightarrow> waveMobs env s \<noteq> []" by auto
    with due show ?thesis by (auto simp: updateGamePhase_def)
  qed
  show ?thesis
    by (intro exI [of _ ?s3] exI [of _ "updateGamePhase ?s5"])
       (use t run ph lives4 cwi4 in \<open>simp\<close>)
qed

lemma advanceTick_total: "\<exists>s'. advanceTick env s dt = Inr s'"
  using advanceTick_running [of s env dt] advanceTick_shortCircuited [of s env dt]
  by (cases "shortCircuited s") blast+

lemma advanceTicks_shortCircuited:
  "shortCircuited s \<Longrightarrow> advanceTicks s ticks = Inr s"
  by (induction ticks) (auto simp: advanceTick_shortCircuited)

text \<open>
  C2: for every state and every \<open>deltaTime\<close>, if \<open>isPaused\<close> is true or the phase is
  \<open>defeat\<close> or \<open>victory\<close>, then \<open>advanceTick\<close> returns the state unchanged; consequently a
  state whose phase is \<open>victory\<close> or \<open>defeat\<close> is returned unchanged, in every field, by
  every run of further ticks.
\<close>

theorem advanceTick_noop:
  "(isPaused s \<or> phase s = Defeat \<or> phase s = Victory \<longrightarrow> advanceTick env s dt = Inr s) \<and>
   (phase s = Victory \<or> phase s = Defeat \<longrightarrow> advanceTicks s ticks = Inr s)"
  using advanceTick_shortCircuited [of s env dt] advanceTicks_shortCircuited [of s ticks]
  by (auto simp: shortCircuited_def)

theorem advanceTick_noop_witness:
  "phase defeatedStore = Defeat \<and> isPaused pausedStore \<and>
   advanceTick exampleEnv pausedStore (1 / 60) = Inr pausedStore \<and>
   advanceTick exampleEnv defeatedStore (1 / 60) = Inr defeatedStore \<and>
   advanceTicks defeatedStore [(exampleEnv, 1 / 60), (exampleEnv, 1), (exampleEnv, 15)]
     = Inr defeatedStore"
proof -
  have d: "phase defeatedStore = Defeat" and p: "isPaused pausedStore"
    by (simp_all add: pausedStore_def defeatedStore_def)
  show ?thesis
    using d p advanceTick_noop [of pausedStore exampleEnv "1 / 60" "[]"]
      advanceTick_noop [of defeatedStore exampleEnv "1 / 60"
                          "[(exampleEnv, 1 / 60), (exampleEnv, 1), (exampleEnv, 15)]"]
    by blast
qed

text \<open>
  C3 (as stated): for every state, \<open>advanceTick\<close> increments \<open>currentWaveIndex\<close> if and
  only if \<open>floor(simulationTime / 15) > currentWaveIndex\<close> and \<open>currentWaveIndex < 10\<close>.
  This fails on a paused state in which a wave is pending: the tick returns the state
  unchanged, so the index is not incremented although the condition holds, both at the
  state's own \<open>simulationTime\<close> and at the advanced one.
\<close>

theorem wave_pending_while_paused_counterexample:
  "advanceTick exampleEnv pausedStore (1 / 60) = Inr pausedStore \<and>
   \<lfloor>(simulationTime pausedStore + 1 / 60 * gameSpeed pausedStore) / 15\<rfloor>
      > currentWaveIndex pausedStore \<and>
   \<lfloor>simulationTime pausedStore / 15\<rfloor> > currentWaveIndex pausedStore \<and>
   currentWaveIndex pausedStore < 10"
  by (simp add: advanceTick_def pausedStore_def exampleStore_def)

text \<open>
  C3 (amended): for every state and \<open>deltaTime\<close>, \<open>advanceTick\<close> returns a state whose
  \<open>currentWaveIndex\<close> is the old one or the old one plus one.  A short-circuited tick
  (paused, or phase \<open>defeat\<close> or \<open>victory\<close>) changes nothing.  A tick that is not
  short-circuited increments the index if and only if
  \<open>floor((simulationTime + deltaTime * gameSpeed) / 15) > currentWaveIndex\<close> and
  \<open>currentWaveIndex < 10\<close>; when it does, the mobs of the new wave (as many as the wave's
  composition lists) are appended to the mobs left by the projectile stage, and the
  wave stage sets the phase to \<open>wave-active\<close>, which is the phase of the returned state
  unless its lives are 0, when it is \<open>defeat\<close>.
\<close>

theorem wave_index_step:
  "\<exists>s'. advanceTick env s dt = Inr s' \<and>
      currentWaveIndex s \<le> currentWaveIndex s' \<and>
      currentWaveIndex s' \<le> currentWaveIndex s + 1 \<and>
      (shortCircuited s \<longrightarrow> s' = s) \<and>
      (\<not> shortCircuited s \<longrightarrow>
         (currentWaveIndex s' = currentWaveIndex s + 1 \<longleftrightarrow> waveDue s dt) \<and>
         (waveDue s dt \<longrightarrow>
            (\<exists>s3. updateTowers env (updateMobs (startTick s dt) (scaledDelta s dt)) = Inr s3 \<and>
                  mobs s' = mobs (updateProjectiles s3 (scaledDelta s dt)) @ waveMobs env s) \<and>
            length (waveMobs env s) = sum_list (map snd (waveComposition (currentWaveIndex s + 1))) \<and>
            phase s' = (if lives s' \<le> 0 then Defeat else WaveActive)))"
proof (cases "shortCircuited s")
  case True
  then show ?thesis
    by (simp add: advanceTick_shortCircuited)
next
  case False
  from advanceTick_running [OF False, of env dt] obtain s3 s' where
    "updateTowers env (updateMobs (startTick s dt) (scaledDelta s dt)) = Inr s3"
    "advanceTick env s dt = Inr s'"
    "currentWaveIndex s' = (if waveDue s dt then currentWaveIndex s + 1 else currentWaveIndex s)"
    "mobs s' = (if waveDue s dt
                then mobs (updateProjectiles s3 (scaledDelta s dt)) @ waveMobs env s
                else mobs (updateProjectiles s3 (scaledDelta s dt)))"
    "waveDue s dt \<longrightarrow> phase s' = (if lives s' \<le> 0 then Defeat else WaveActive)"
    by blast
  with False show ?thesis
    by (intro exI [of _ s']) (simp add: length_waveMobs)
qed


theorem wave_index_step_witness:
  "\<not> shortCircuited exampleStore \<and> waveDue exampleStore 1 \<and>
   (\<exists>s'. advanceTick exampleEnv exampleStore 1 = Inr s' \<and> currentWaveIndex s' = 1 \<and>
         phase s' = WaveActive) \<and>
   length (waveMobs exampleEnv exampleStore) = 5"
proof -
  have n: "\<not> shortCircuited exampleStore"
    by (simp add: shortCircuited_def exampleStore_def)
  have due: "waveDue exampleStore 1"
    by (simp add: waveDue_def exampleStore_def)
  have c: "currentWaveIndex exampleStore = 0" and l: "lives exampleStore = 20"
    and m: "mobs exampleStore = []"
    by (simp_all add: exampleStore_def)
  from wave_index_step [of exampleEnv exampleStore 1] n due obtain s' where
    s': "advanceTick exampleEnv exampleStore 1 = Inr s'"
    and i: "currentWaveIndex s' = currentWaveIndex exampleStore + 1"
    and len: "length (waveMobs exampleEnv exampleStore)
                = sum_list (map snd (waveComposition (currentWaveIndex exampleStore + 1)))"
    and ph: "phase s' = (if lives s' \<le> 0 then Defeat else WaveActive)"
    by auto
  from advanceTick_running [OF n, of exampleEnv 1] s' have "lives s' = 20"
    by (auto simp: l m)
  with ph have "phase s' = WaveActive" by simp
  moreover from len have "length (waveMobs exampleEnv exampleStore) = 5"
    by (simp add: c waveComposition_def)
  ultimately show ?thesis
    using n due s' i c by simp
qed

lemma updateTowers_lives: "updateTowers env s = Inr s' \<Longrightarrow> lives s' = lives s"
  using updateTowers_total [of env s] by auto

lemma updateWaveSpawning_lives: "updateWaveSpawning env s = Inr s' \<Longrightarrow> lives s' = lives s"
  by (auto simp: updateWaveSpawning_eq split: if_splits)

text \<open>
  C4: on every tick that is not short-circuited, \<open>lives\<close> becomes
  \<open>max(0, lives - n)\<close>, where \<open>n\<close> is the number of mobs that reach the end in this
  tick's movement stage: the spawned, not yet flagged mobs whose progress after the move
  is at least 1 (the move being that of \<open>moveMob\<close>, on a path of positive length).  No stage increases \<open>lives\<close>: \<open>updateMobs\<close> does not when \<open>lives\<close> is
  non-negative, and the stages for towers, projectiles, waves and the phase leave it as
  it is.  Hence \<open>0 \<le> lives\<close> is preserved by every tick, and \<open>lives\<close> never grows.
\<close>

theorem lives_step:
  "\<exists>s'. advanceTick env s dt = Inr s' \<and>
      (\<not> shortCircuited s \<longrightarrow>
         lives s' = max 0 (lives s - int (length (filter (reachesEnd (startTick s dt) (scaledDelta s dt))
                                                       (mobs s))))) \<and>
      (shortCircuited s \<longrightarrow> s' = s) \<and>
      (0 \<le> lives s \<longrightarrow> 0 \<le> lives s' \<and> lives s' \<le> lives s) \<and>
      (0 \<le> lives x \<longrightarrow> lives (updateMobs x d) \<le> lives x) \<and>
      (\<forall>x'. updateTowers env x = Inr x' \<longrightarrow> lives x' = lives x) \<and>
      lives (updateProjectiles x d) = lives x \<and>
      (\<forall>x'. updateWaveSpawning env x = Inr x' \<longrightarrow> lives x' = lives x) \<and>
      lives (updateGamePhase x) = lives x"
proof (cases "shortCircuited s")
  case True
  then show ?thesis
    by (simp add: advanceTick_shortCircuited updateMobs_lives updateTowers_lives
          updateWaveSpawning_lives)
next
  case False
  from advanceTick_running [OF False, of env dt] obtain s' where
    "advanceTick env s dt = Inr s'"
    "lives s' = max 0 (lives s - int (length (filter (reachesEnd (startTick s dt) (scaledDelta s dt)) (mobs s))))"
    by blast
  with False show ?thesis
    by (intro exI [of _ s'])
       (simp add: updateMobs_lives updateTowers_lives updateWaveSpawning_lives)
qed

lemma arrivalState_count:
  "filter (reachesEnd (startTick arrivalState (1 / 60)) (scaledDelta arrivalState (1 / 60)))
          (mobs arrivalState) = [mobAt ''a'' 58 260 (99 / 100) False]"
proof -
  have "sqrt 1600 = 40"
    using real_sqrt_abs2 [of 40] by simp
  then have len: "calculatePathLength shortPath 40 = 40"
    by (simp add: calculatePathLength_def shortPath_def gridToWorld_def distance_def)
  show ?thesis
    by (simp add: arrivalState_def reachesEnd_def moveMob_def startTick_def scaledDelta_def
          mobAt_def updateMobEffects_def getEffectiveSpeed_def GAME_CONFIG_def len Let_def)
qed

theorem lives_step_witness:
  "\<not> shortCircuited arrivalState \<and> 0 \<le> lives arrivalState \<and>
   (\<exists>s'. advanceTick exampleEnv arrivalState (1 / 60) = Inr s' \<and> lives s' = 19)"
proof -
  have n: "\<not> shortCircuited arrivalState" and l: "lives arrivalState = 20"
    by (simp_all add: shortCircuited_def arrivalState_def)
  from lives_step [of exampleEnv arrivalState "1 / 60"] n obtain s' where
    "advanceTick exampleEnv arrivalState (1 / 60) = Inr s'"
    "lives s' = max 0 (lives arrivalState
                 - int (length (filter (reachesEnd (startTick arrivalState (1 / 60))
                                          (scaledDelta arrivalState (1 / 60))) (mobs arrivalState))))"
    by blast
  then show ?thesis
    using n by (simp add: arrivalState_count l)
qed

end
